theory Spec2Isabelle
  imports Complex_Main
begin

section \<open>Numbers and exceptions\<close>

text \<open>
  The screeners compute on pandas columns of 64-bit floats. The embedding idealises them
  as real numbers: rounding error, overflow and the special values of the float format
  are outside the model. A value that pandas leaves undefined (the moving average before
  its window is full) is \<open>None\<close>. Python exceptions are values of \<open>py_error\<close>.
\<close>

datatype py_error =
  ValueError | KeyError string | ZeroDivisionError | IndexError | ProviderError string

section \<open>Indicator engine\<close>

subsection \<open>Exponentially weighted mean\<close>

text \<open>
  \<open>close.ewm(span=s, adjust=False).mean()\<close> is a pandas routine. pandas first turns the
  span into a centre of mass, refusing a span below one, and takes
  \<open>alpha = 1 / (1 + com)\<close>. Its loop keeps the running value \<open>weighted\<close>: the first
  output is the first observation; at each later observation the old weight \<open>1\<close> is
  multiplied by \<open>1 - alpha\<close>, the new weight is \<open>alpha\<close>, and unless the observation
  equals the running value the running value becomes the weighted sum divided by the sum
  of the two weights. The series here carry no missing observation.
\<close>

definition get_center_of_mass :: "real \<Rightarrow> py_error + real" where
  "get_center_of_mass spn =
     (if spn < 1 then Inl ValueError else Inr ((spn - 1) / 2))"

fun ewm_loop :: "real \<Rightarrow> real \<Rightarrow> real list \<Rightarrow> real list" where
  "ewm_loop alpha weighted [] = []"
| "ewm_loop alpha weighted (cur # vals) =
     (let old_wt = 1 * (1 - alpha);
          new_wt = alpha;
          weighted' = (if weighted \<noteq> cur
                       then (old_wt * weighted + new_wt * cur) / (old_wt + new_wt)
                       else weighted)
      in weighted' # ewm_loop alpha weighted' vals)"

definition ewm_mean :: "real \<Rightarrow> real list \<Rightarrow> py_error + real list" where
  "ewm_mean spn vals =
     (case get_center_of_mass spn of
        Inl e \<Rightarrow> Inl e
      | Inr com \<Rightarrow>
          (let alpha = 1 / (1 + com)
           in Inr (case vals of [] \<Rightarrow> [] | v # rest \<Rightarrow> v # ewm_loop alpha v rest)))"

subsection \<open>MACD\<close>

text \<open>
  \<open>calculate_macd(df, fast, slow, signal)\<close> adds the columns DIF, DEA and the MACD
  histogram to the frame; the model returns the three columns.
\<close>

record macd_columns =
  DIF :: "real list"
  DEA :: "real list"
  MACD_hist :: "real list"

definition calculate_macd ::
  "real list \<Rightarrow> real \<Rightarrow> real \<Rightarrow> real \<Rightarrow> py_error + macd_columns" where
  "calculate_macd close fast slow signal =
     (case ewm_mean fast close of
        Inl e \<Rightarrow> Inl e
      | Inr ema_fast \<Rightarrow>
     (case ewm_mean slow close of
        Inl e \<Rightarrow> Inl e
      | Inr ema_slow \<Rightarrow>
     (let dif = map2 (-) ema_fast ema_slow
      in case ewm_mean signal dif of
           Inl e \<Rightarrow> Inl e
         | Inr dea \<Rightarrow>
             Inr \<lparr>DIF = dif, DEA = dea,
                  MACD_hist = map2 (\<lambda>d e. 2 * (d - e)) dif dea\<rparr>)))"

subsection \<open>The recurrence of the specification\<close>

text \<open>
  The specification's own wording of the moving average, by index:
  \<open>ema[0] = price[0]\<close> and \<open>ema[t] = \<alpha> price[t] + (1 - \<alpha>) ema[t-1]\<close> with
  \<open>\<alpha> = 2 / (span + 1)\<close>. It is the reference the computed columns are compared with.
\<close>

definition spec_alpha :: "real \<Rightarrow> real" where
  "spec_alpha spn = 2 / (spn + 1)"

fun ema_ref :: "real \<Rightarrow> real list \<Rightarrow> nat \<Rightarrow> real" where
  "ema_ref spn price 0 = price ! 0"
| "ema_ref spn price (Suc t) =
     spec_alpha spn * price ! Suc t + (1 - spec_alpha spn) * ema_ref spn price t"

definition dif_ref :: "real list \<Rightarrow> real \<Rightarrow> real \<Rightarrow> nat \<Rightarrow> real" where
  "dif_ref price fast slow t = ema_ref fast price t - ema_ref slow price t"

definition dea_ref :: "real list \<Rightarrow> real \<Rightarrow> real \<Rightarrow> real \<Rightarrow> nat \<Rightarrow> real" where
  "dea_ref price fast slow signal t =
     ema_ref signal (map (dif_ref price fast slow) [0..<length price]) t"

definition hist_ref :: "real list \<Rightarrow> real \<Rightarrow> real \<Rightarrow> real \<Rightarrow> nat \<Rightarrow> real" where
  "hist_ref price fast slow signal t =
     2 * (dif_ref price fast slow t - dea_ref price fast slow signal t)"

subsection \<open>A fixed close series with short spans\<close>

text \<open>
  The close series of the specification's fixture, and the columns that exact arithmetic
  gives for it with \<open>fast = 2\<close>, \<open>slow = 4\<close>, \<open>signal = 2\<close>.
\<close>

definition golden_close :: "real list" where
  "golden_close = [10, 11, 12, 11, 10, 9, 10, 11, 12, 13]"

definition golden_dif :: "real list" where
  "golden_dif = [0, 4 / 15, 116 / 225, 544 / 3375, - (11104 / 50625),
     - (382436 / 759375), - (1816924 / 11390625), 37335184 / 170859375,
     1287891656 / 2562890625, 26601962404 / 38443359375]"

definition golden_dea :: "real list" where
  "golden_dea = [0, 8 / 45, 272 / 675, 272 / 1125, - (9968 / 151875),
     - (814712 / 2278125), - (2569136 / 11390625), 36133328 / 512578125,
     2756449952 / 7688671875, 22328724856 / 38443359375]"

definition golden_hist :: "real list" where
  "golden_hist = [0, 8 / 45, 152 / 675, - (544 / 3375), - (46688 / 151875),
     - (665192 / 2278125), 1504424 / 11390625, 151744448 / 512578125,
     2214450032 / 7688671875, 949608344 / 4271484375]"

section \<open>Market data provider\<close>

subsection \<open>Bars\<close>

text \<open>
  A date is the number of days since 1970-01-01, a Thursday; pandas keeps a timestamp
  the same way. A daily bar has the columns of the Tencent source (date, open, high, low,
  close, amount); a weekly bar has the six normalised columns that both sources are
  reduced to (date, open, high, low, close, volume).
\<close>

record daily_bar =
  d_date :: int
  d_open :: real
  d_high :: real
  d_low :: real
  d_close :: real
  d_amount :: real

record weekly_bar =
  w_date :: int
  w_open :: real
  w_high :: real
  w_low :: real
  w_close :: real
  w_volume :: real

subsection \<open>Weekly resampling\<close>

text \<open>
  \<open>weekday\<close> numbers Monday as 0 and Sunday as 6. \<open>resample("W-FRI")\<close> cuts the time
  axis into weeks that end on a Friday, closed and labelled on the right: a bar belongs to
  the bin of the first Friday on or after its date. The bins run from the bin of the
  first bar to the bin of the last one, seven days apart, whether they hold a bar or not.
\<close>

definition weekday :: "int \<Rightarrow> int" where
  "weekday d = (d + 3) mod 7"

definition week_label :: "int \<Rightarrow> int" where
  "week_label d = d + (4 - weekday d) mod 7"

text \<open>The Monday that begins the ISO week of a date.\<close>

definition iso_week_start :: "int \<Rightarrow> int" where
  "iso_week_start d = d - weekday d"

definition bin_labels :: "daily_bar list \<Rightarrow> int list" where
  "bin_labels bars =
     (case bars of
        [] \<Rightarrow> []
      | b # _ \<Rightarrow>
          (let first = week_label (d_date b);
               final = week_label (d_date (last bars))
           in map (\<lambda>k. first + 7 * int k) [0..<Suc (nat ((final - first) div 7))]))"

text \<open>
  The aggregation \<open>agg\<close> of one bin: \<open>first\<close>, \<open>max\<close>, \<open>min\<close> and \<open>last\<close> of an empty bin
  are undefined, its \<open>sum\<close> is zero.
\<close>

record weekly_agg =
  a_label :: int
  a_open :: "real option"
  a_high :: "real option"
  a_low :: "real option"
  a_close :: "real option"
  a_amount :: real

definition agg_first :: "real list \<Rightarrow> real option" where
  "agg_first xs = (case xs of [] \<Rightarrow> None | x # _ \<Rightarrow> Some x)"

definition agg_last :: "real list \<Rightarrow> real option" where
  "agg_last xs = (case xs of [] \<Rightarrow> None | _ # _ \<Rightarrow> Some (last xs))"

definition agg_max :: "real list \<Rightarrow> real option" where
  "agg_max xs = (case xs of [] \<Rightarrow> None | x # rest \<Rightarrow> Some (fold max rest x))"

definition agg_min :: "real list \<Rightarrow> real option" where
  "agg_min xs = (case xs of [] \<Rightarrow> None | x # rest \<Rightarrow> Some (fold min rest x))"

definition bin_bars :: "int \<Rightarrow> daily_bar list \<Rightarrow> daily_bar list" where
  "bin_bars l bars = filter (\<lambda>b. week_label (d_date b) = l) bars"

definition agg :: "int \<Rightarrow> daily_bar list \<Rightarrow> weekly_agg" where
  "agg l g =
     \<lparr>a_label = l,
      a_open = agg_first (map d_open g),
      a_high = agg_max (map d_high g),
      a_low = agg_min (map d_low g),
      a_close = agg_last (map d_close g),
      a_amount = sum_list (map d_amount g)\<rparr>"

text \<open>\<open>dropna\<close> removes the rows that have an undefined value in any column.\<close>

definition dropna :: "weekly_agg list \<Rightarrow> weekly_agg list" where
  "dropna rows =
     filter (\<lambda>r. a_open r \<noteq> None \<and> a_high r \<noteq> None \<and> a_low r \<noteq> None \<and> a_close r \<noteq> None)
       rows"

text \<open>
  After \<open>dropna\<close> every remaining value is defined; the columns are renamed and the
  amount becomes the volume column.
\<close>

definition rename_columns :: "weekly_agg \<Rightarrow> weekly_bar" where
  "rename_columns r =
     \<lparr>w_date = a_label r,
      w_open = the (a_open r),
      w_high = the (a_high r),
      w_low = the (a_low r),
      w_close = the (a_close r),
      w_volume = a_amount r\<rparr>"

text \<open>
  The chain of the source: sort the daily bars by date (bars of one date keep their
  order here; pandas promises none among them), resample into Friday weeks,
  aggregate, drop the rows with an undefined value, rename.
\<close>

definition sort_index :: "daily_bar list \<Rightarrow> daily_bar list" where
  "sort_index bars = sort_key d_date bars"

definition resample_W_FRI :: "daily_bar list \<Rightarrow> weekly_bar list" where
  "resample_W_FRI df_daily =
     (let sorted_bars = sort_index df_daily
      in map rename_columns
           (dropna (map (\<lambda>l. agg l (bin_bars l sorted_bars)) (bin_labels sorted_bars))))"

subsection \<open>A ten-day fixture\<close>

text \<open>
  Ten daily bars over two weeks, Monday 2024-01-01 (day 19723) to Friday 2024-01-12
  (day 19734), and the same series cut after Wednesday of the second week.
\<close>

definition daily :: "int \<Rightarrow> real \<Rightarrow> real \<Rightarrow> real \<Rightarrow> real \<Rightarrow> real \<Rightarrow> daily_bar" where
  "daily d op hi lo cl am =
     \<lparr>d_date = d, d_open = op, d_high = hi, d_low = lo, d_close = cl, d_amount = am\<rparr>"

definition ten_days :: "daily_bar list" where
  "ten_days =
     [daily 19723 10 11 9 (21 / 2) 100, daily 19724 (21 / 2) 12 10 (23 / 2) 110,
      daily 19725 (23 / 2) (25 / 2) 11 12 120, daily 19726 12 13 (23 / 2) (25 / 2) 130,
      daily 19727 (25 / 2) (63 / 5) (21 / 2) 11 140,
      daily 19730 11 (23 / 2) 10 (51 / 5) 150, daily 19731 (51 / 5) (54 / 5) (19 / 2) (49 / 5) 160,
      daily 19732 (49 / 5) (21 / 2) (48 / 5) (52 / 5) 170,
      daily 19733 (52 / 5) (56 / 5) (103 / 10) 11 180,
      daily 19734 11 (119 / 10) (109 / 10) (117 / 10) 190]"

definition eight_days :: "daily_bar list" where
  "eight_days = take 8 ten_days"

section \<open>Screening pipeline\<close>

subsection \<open>Modes\<close>

text \<open>
  The threshold sets \<open>TAB1_MODES\<close> of the unified screener and \<open>MODES\<close> of the web
  screener, keyed by mode name. The display name of a mode plays no part in screening and
  is left out.
\<close>

record mode_params =
  ma_min :: real
  ma_max :: real
  history_dea :: real
  pullback :: real
  dea_min :: real
  dea_max :: real

definition TAB1_MODES :: "string \<Rightarrow> mode_params option" where
  "TAB1_MODES =
     [''strict'' \<mapsto> \<lparr>ma_min = 0, ma_max = 8 / 100, history_dea = 3 / 10, pullback = 3 / 10,
                      dea_min = 0, dea_max = 5 / 10\<rparr>,
      ''default'' \<mapsto> \<lparr>ma_min = - (5 / 100), ma_max = 10 / 100, history_dea = 1 / 10,
                       pullback = 5 / 10, dea_min = 0, dea_max = 1\<rparr>,
      ''loose'' \<mapsto> \<lparr>ma_min = - (10 / 100), ma_max = 20 / 100, history_dea = 5 / 100,
                     pullback = 7 / 10, dea_min = - (2 / 10), dea_max = 15 / 10\<rparr>]"

definition MODES :: "string \<Rightarrow> mode_params option" where
  "MODES =
     [''strict'' \<mapsto> \<lparr>ma_min = 0, ma_max = 8 / 100, history_dea = 3 / 10, pullback = 3 / 10,
                      dea_min = 0, dea_max = 5 / 10\<rparr>,
      ''default'' \<mapsto> \<lparr>ma_min = - (5 / 100), ma_max = 10 / 100, history_dea = 1 / 10,
                       pullback = 5 / 10, dea_min = 0, dea_max = 1\<rparr>,
      ''loose'' \<mapsto> \<lparr>ma_min = - (10 / 100), ma_max = 20 / 100, history_dea = 5 / 100,
                     pullback = 7 / 10, dea_min = - (2 / 10), dea_max = 15 / 10\<rparr>]"

subsection \<open>Indicator frame\<close>

text \<open>
  \<open>rolling(window).mean()\<close> is undefined on the first \<open>window - 1\<close> rows and the mean of
  the trailing \<open>window\<close> closes afterwards. The frame the screeners test has, per weekly
  bar, the close, the three MACD columns with the default spans 12, 26, 9, and MA55.
\<close>

definition rolling_mean :: "nat \<Rightarrow> real list \<Rightarrow> real option list" where
  "rolling_mean window xs =
     map (\<lambda>i. if Suc i < window then None
              else Some (sum_list (take window (drop (Suc i - window) xs)) / real window))
       [0..<length xs]"

record frame_row =
  r_close :: real
  r_DIF :: real
  r_DEA :: real
  r_MACD :: real
  r_MA55 :: "real option"

definition indicator_frame :: "weekly_bar list \<Rightarrow> py_error + frame_row list" where
  "indicator_frame df =
     (let closes = map w_close df
      in case calculate_macd closes 12 26 9 of
           Inl e \<Rightarrow> Inl e
         | Inr m \<Rightarrow>
             (let ma55 = rolling_mean 55 closes
              in Inr (map (\<lambda>i. \<lparr>r_close = closes ! i, r_DIF = DIF m ! i, r_DEA = DEA m ! i,
                                 r_MACD = MACD_hist m ! i, r_MA55 = ma55 ! i\<rparr>)
                        [0..<length df])))"

subsection \<open>Verdicts\<close>

text \<open>
  The status strings that the screeners return next to the result, the signal labels
  (golden cross, green bars shrinking, cross pending) and the histogram labels of the web
  screener (turned red, red growing, green shrinking, red shrinking, green growing).
\<close>

datatype status =
    matched | no_data | no_ma | ma_filter | dea_filter | dea_range | no_golden | error
  | below_ma | too_far | low_history | no_pullback
  | no_fundamental | pb_filter | market_cap_filter | beta_filter | no_monthly_data

datatype signal = Golden_cross | Green_shrinking | Pending_cross


record tab1_result =
  res_code :: string
  res_name :: string
  res_close :: real
  res_MA55 :: real
  res_deviation_pct :: real
  res_DEA :: real
  res_history_DEA :: real
  res_pullback_pct :: real
  res_signal :: signal


text \<open>
  \<open>round(x, n)\<close> rounds to \<open>n\<close> decimals, a tie going to the even neighbour.
\<close>

definition round_half_even :: "real \<Rightarrow> int" where
  "round_half_even x =
     (let f = \<lfloor>x\<rfloor>; r = x - of_int f
      in if r < 1 / 2 then f else if 1 / 2 < r then f + 1 else if even f then f else f + 1)"

definition py_round :: "real \<Rightarrow> nat \<Rightarrow> real" where
  "py_round x n = of_int (round_half_even (x * 10 ^ n)) / 10 ^ n"

definition tail :: "nat \<Rightarrow> 'a list \<Rightarrow> 'a list" where
  "tail n xs = drop (length xs - n) xs"

subsection \<open>The tests of the unified screener\<close>

text \<open>
  The body of \<open>screen_stock_tab1\<close> from the last row on: the current and the previous
  row, the MA55 test, the deviation from MA55, the highest DEA of the last 100 rows, the
  pull-back, the DEA band, the golden-cross switch, the signal label and the result. An
  exception raised on the way (an empty frame has no last row; a quotient by zero) is the
  \<open>Inl\<close> value; the caller's handler turns it into the status \<open>error\<close>.

  A quotient by zero is taken as Python's \<open>ZeroDivisionError\<close>. Where the row holds
  numpy scalars the quotient is an infinity or a NaN instead, values the real numbers of
  this embedding do not have; the statements about the tests therefore leave out the
  frames whose MA55 is zero, so that they hold under either reading.
\<close>

definition screen_frame_tab1 ::
  "mode_params \<Rightarrow> bool \<Rightarrow> string \<Rightarrow> string \<Rightarrow> frame_row list
     \<Rightarrow> py_error + (tab1_result option \<times> status)" where
  "screen_frame_tab1 params golden_only symbol name df =
     (if df = [] then Inl IndexError else
      let current = last df;
          prev = (if 2 \<le> length df then Some (df ! (length df - 2)) else None);
          close = r_close current;
          dea = r_DEA current; dif = r_DIF current;
          macd = r_MACD current;
          prev_macd = (case prev of Some p \<Rightarrow> r_MACD p | None \<Rightarrow> 0)
      in case r_MA55 current of
           None \<Rightarrow> Inr (None, no_ma)
         | Some ma55 \<Rightarrow>
      if ma55 = 0 then Inl ZeroDivisionError else
      let deviation = (close - ma55) / ma55
      in if deviation < ma_min params \<or> ma_max params \<le> deviation
         then Inr (None, ma_filter) else
      let max_dea_100w = Max (set (map r_DEA (tail 100 df)))
      in if max_dea_100w \<le> history_dea params \<or> pullback params * max_dea_100w \<le> dea
         then Inr (None, dea_filter) else
         if dea \<le> dea_min params \<or> dea_max params \<le> dea
         then Inr (None, dea_range) else
      let is_golden = (dea < dif)
      in if golden_only \<and> \<not> is_golden then Inr (None, no_golden) else
      let signal = (if is_golden then Golden_cross
                    else if prev_macd < macd \<and> macd < 0 then Green_shrinking
                    else Pending_cross)
      in if max_dea_100w = 0 then Inl ZeroDivisionError else
         Inr (Some \<lparr>res_code = symbol, res_name = name,
                    res_close = py_round close 2,
                    res_MA55 = py_round ma55 2,
                    res_deviation_pct = py_round (deviation * 100) 2,
                    res_DEA = py_round dea 4,
                    res_history_DEA = py_round max_dea_100w 4,
                    res_pullback_pct = py_round ((1 - dea / max_dea_100w) * 100) 1,
                    res_signal = signal\<rparr>, matched))"

subsection \<open>The tests of the web screener\<close>


subsection \<open>The specification's chain of predicates\<close>








section \<open>External collaborators\<close>

text \<open>
  The network sources are outside the program. A call either returns a value or raises;
  \<open>None\<close> stands for an absent or empty frame. A source that is asked again may answer
  differently, so the retried calls take the number of the attempt. \<open>sample\<close> is pandas'
  seeded sub-sampling of the symbol table, a fixed function of the fraction and the
  table. \<open>calculate_beta\<close> stands for the value that the function of that name returns
  (its statistics over two daily series are not modelled; the function catches its own
  exceptions and returns a number or nothing).
\<close>

datatype 'a call = Returns 'a | Raises py_error

record fundamentals =
  total_market_value :: real
  price_to_book :: "real option"

record provider =
  stock_zh_a_hist_weekly :: "string \<Rightarrow> weekly_bar list option call"
  stock_zh_a_hist_tx :: "string \<Rightarrow> nat \<Rightarrow> daily_bar list option call"
  stock_zh_a_hist_monthly :: "string \<Rightarrow> nat \<Rightarrow> weekly_bar list option call"
  stock_zh_index_hist_monthly :: "weekly_bar list option call"
  stock_individual_info_em :: "string \<Rightarrow> nat \<Rightarrow> fundamentals option call"
  calculate_beta :: "string \<Rightarrow> real option"
  stock_info_a_code_name :: "(string \<times> string) list call"
  sample :: "real \<Rightarrow> (string \<times> string) list \<Rightarrow> (string \<times> string) list"

section \<open>Shared state\<close>

text \<open>
  \<open>STATE\<close> maps each tab to a dictionary object; \<open>start\<close> replaces the object of a tab
  by a fresh one while a worker may still hold the old one in its local variable
  \<open>state\<close>. The model keeps the dictionaries in a store indexed by addresses, \<open>STATE\<close>
  maps a tab to the address of its current dictionary, and a worker's \<open>state\<close> is an
  address. The nested \<open>stats\<close> dictionary is flattened into three counters. The texts of
  the data-source label and of the message are constructors.
\<close>

datatype tab = Tab1 | Tab2

datatype job_status = job_idle | job_running | job_completed | job_error

datatype source_label = Auto_select | Eastmoney | Eastmoney_weekly | Tencent_aggregated

datatype message =
    Msg_empty
  | Msg_fetching_stock_list
  | Msg_fetching_market_signal
  | Msg_market_caution real
  | Msg_market_clear real
  | Msg_already_running tab
  | Msg_done nat
  | Msg_exception py_error

record tab2_result =
  t2_code :: string
  t2_name :: string
  t2_close :: real
  t2_market_cap :: real
  t2_PB :: real
  t2_Beta :: real
  t2_DEA :: real
  t2_signal :: signal

datatype screen_result = Weekly tab1_result | Fundamental tab2_result

record job =
  j_status :: job_status
  j_progress :: nat
  j_total :: nat
  j_current_stock :: string
  j_data_source :: source_label
  j_results :: "screen_result list"
  j_success :: nat
  j_failed :: nat
  j_matched :: nat
  j_message :: message
  j_mode :: string
  j_golden_only :: "bool option"
  j_market_macd :: "real option"

record world =
  heap :: "nat \<Rightarrow> job"
  next_addr :: nat
  STATE :: "tab \<Rightarrow> nat"
  TASK_LOCKS :: "tab \<Rightarrow> bool"
  eastmoney_ok :: "bool option"

definition fresh_job :: "tab \<Rightarrow> string \<Rightarrow> bool \<Rightarrow> job" where
  "fresh_job t mode golden_only =
     \<lparr>j_status = job_idle, j_progress = 0, j_total = 0, j_current_stock = [],
      j_data_source = (case t of Tab1 \<Rightarrow> Auto_select | Tab2 \<Rightarrow> Eastmoney),
      j_results = [], j_success = 0, j_failed = 0, j_matched = 0,
      j_message = Msg_empty, j_mode = mode,
      j_golden_only = (case t of Tab1 \<Rightarrow> Some golden_only | Tab2 \<Rightarrow> None),
      j_market_macd = (case t of Tab1 \<Rightarrow> None | Tab2 \<Rightarrow> Some 0)\<rparr>"

text \<open>The module's initial state: both tabs idle in mode default, no lock held.\<close>

definition initial_world :: world where
  "initial_world =
     \<lparr>heap = (\<lambda>a. if a = 0 then fresh_job Tab1 ''default'' False
                   else fresh_job Tab2 ''default'' False),
      next_addr = 2,
      STATE = (\<lambda>t. case t of Tab1 \<Rightarrow> 0 | Tab2 \<Rightarrow> 1),
      TASK_LOCKS = (\<lambda>t. False),
      eastmoney_ok = None\<rparr>"

definition update_job :: "nat \<Rightarrow> (job \<Rightarrow> job) \<Rightarrow> world \<Rightarrow> world" where
  "update_job a f w = w\<lparr>heap := (heap w)(a := f (heap w a))\<rparr>"

text \<open>What a status query of a tab reads: the dictionary \<open>STATE\<close> points to now.\<close>

definition status_query :: "tab \<Rightarrow> world \<Rightarrow> job" where
  "status_query t w = heap w (STATE w t)"

section \<open>Fetching weekly data\<close>

text \<open>
  \<open>get_weekly_data_tab1\<close>: the Eastmoney weekly frame is taken when the source has not
  been marked down and the frame has at least 55 rows; a raised call marks the source
  down. Otherwise the Tencent daily frame is asked for, at most twice, and resampled.
  The data-source label is written through \<open>STATE\<close>, not through a worker's variable.
\<close>

definition tencent_attempt :: "provider \<Rightarrow> string \<Rightarrow> nat \<Rightarrow> weekly_bar list option" where
  "tencent_attempt p symbol retry =
     (let prefix = (if take 1 symbol = ''6'' then ''sh'' else ''sz'')
      in case stock_zh_a_hist_tx p (prefix @ symbol) retry of
           Raises e \<Rightarrow> None
         | Returns None \<Rightarrow> None
         | Returns (Some df_daily) \<Rightarrow>
             (if df_daily = [] then None else Some (resample_W_FRI df_daily)))"

definition get_weekly_data_tab1 ::
  "provider \<Rightarrow> string \<Rightarrow> world \<Rightarrow> weekly_bar list option \<times> world" where
  "get_weekly_data_tab1 p symbol w =
     (let (primary, w1) =
            (if eastmoney_ok w \<noteq> Some False
             then (case stock_zh_a_hist_weekly p symbol of
                     Raises e \<Rightarrow> (None, w\<lparr>eastmoney_ok := Some False\<rparr>)
                   | Returns None \<Rightarrow> (None, w)
                   | Returns (Some df) \<Rightarrow>
                       (if 55 \<le> length df
                        then (Some df,
                              update_job (STATE w Tab1)
                                (\<lambda>j. j\<lparr>j_data_source := Eastmoney_weekly\<rparr>)
                                (w\<lparr>eastmoney_ok := Some True\<rparr>))
                        else (None, w)))
             else (None, w))
      in case primary of
           Some df \<Rightarrow> (Some df, w1)
         | None \<Rightarrow>
             (let labelled = update_job (STATE w1 Tab1)
                               (\<lambda>j. j\<lparr>j_data_source := Tencent_aggregated\<rparr>) w1
              in case tencent_attempt p symbol 0 of
                   Some df_weekly \<Rightarrow> (Some df_weekly, labelled)
                 | None \<Rightarrow>
                     (case tencent_attempt p symbol 1 of
                        Some df_weekly \<Rightarrow> (Some df_weekly, labelled)
                      | None \<Rightarrow> (None, w1))))"

section \<open>Per-symbol screening\<close>

text \<open>
  \<open>screen_stock_tab1\<close> looks the mode up before its \<open>try\<close>: an unknown mode raises
  \<open>KeyError\<close> to the caller. Everything after that is inside the \<open>try\<close>, whose handler
  returns the status \<open>error\<close> for any exception.
\<close>

definition screen_stock_tab1 ::
  "provider \<Rightarrow> string \<Rightarrow> bool \<Rightarrow> string \<Rightarrow> string \<Rightarrow> world
     \<Rightarrow> py_error + ((tab1_result option \<times> status) \<times> world)" where
  "screen_stock_tab1 p mode golden_only symbol name w =
     (case TAB1_MODES mode of
        None \<Rightarrow> Inl (KeyError mode)
      | Some params \<Rightarrow>
          (let (fetched, w1) = get_weekly_data_tab1 p symbol w
           in case fetched of
                None \<Rightarrow> Inr ((None, no_data), w1)
              | Some df \<Rightarrow>
                  if length df < 100 then Inr ((None, no_data), w1)
                  else (case indicator_frame df of
                          Inl e \<Rightarrow> Inr ((None, error), w1)
                        | Inr frame \<Rightarrow>
                            (case screen_frame_tab1 params golden_only symbol name frame of
                               Inl e \<Rightarrow> Inr ((None, error), w1)
                             | Inr verdict \<Rightarrow> Inr (verdict, w1)))))"

subsection \<open>The fundamental screen\<close>

record tab2_params =
  pb_max :: real
  pb_min :: real
  market_cap_min :: real
  roa_min :: real
  beta_max :: real

definition TAB2_MODES :: "string \<Rightarrow> tab2_params option" where
  "TAB2_MODES =
     [''strict'' \<mapsto> \<lparr>pb_max = 8 / 10, pb_min = 1 / 10, market_cap_min = 800,
                      roa_min = 20 / 100, beta_max = 6 / 10\<rparr>,
      ''default'' \<mapsto> \<lparr>pb_max = 1, pb_min = 0, market_cap_min = 500,
                       roa_min = 15 / 100, beta_max = 7 / 10\<rparr>,
      ''loose'' \<mapsto> \<lparr>pb_max = 15 / 10, pb_min = 0, market_cap_min = 300,
                     roa_min = 10 / 100, beta_max = 8 / 10\<rparr>]"

text \<open>
  The fundamental facts are asked for at most three times; an empty answer or an
  exception on the third attempt ends the symbol with \<open>no_fundamental\<close>. The monthly frame
  is asked for at most twice.
\<close>

fun fundamental_attempts :: "provider \<Rightarrow> string \<Rightarrow> nat \<Rightarrow> nat \<Rightarrow> fundamentals option" where
  "fundamental_attempts p symbol retry 0 = None"
| "fundamental_attempts p symbol retry (Suc left) =
     (case stock_individual_info_em p symbol retry of
        Returns (Some facts) \<Rightarrow> Some facts
      | Returns None \<Rightarrow> fundamental_attempts p symbol (Suc retry) left
      | Raises e \<Rightarrow> fundamental_attempts p symbol (Suc retry) left)"

definition get_monthly_data_tab2 :: "provider \<Rightarrow> string \<Rightarrow> weekly_bar list option" where
  "get_monthly_data_tab2 p symbol =
     (case stock_zh_a_hist_monthly p symbol 0 of
        Returns (Some df) \<Rightarrow> Some df
      | _ \<Rightarrow> (case stock_zh_a_hist_monthly p symbol 1 of
                Returns (Some df) \<Rightarrow> Some df
              | _ \<Rightarrow> None))"

definition screen_stock_tab2 ::
  "provider \<Rightarrow> string \<Rightarrow> string \<Rightarrow> string \<Rightarrow> py_error + (tab2_result option \<times> status)" where
  "screen_stock_tab2 p mode symbol name =
     (case TAB2_MODES mode of
        None \<Rightarrow> Inl (KeyError mode)
      | Some params \<Rightarrow>
          Inr (case fundamental_attempts p symbol 0 3 of
                 None \<Rightarrow> (None, no_fundamental)
               | Some facts \<Rightarrow>
                   (let market_cap = total_market_value facts / 100000000
                    in case price_to_book facts of
                         None \<Rightarrow> (None, pb_filter)
                       | Some pb_ratio \<Rightarrow>
                    if pb_ratio \<le> pb_min params \<or> pb_max params \<le> pb_ratio
                    then (None, pb_filter) else
                    if market_cap < market_cap_min params
                    then (None, market_cap_filter) else
                    (case calculate_beta p symbol of
                       None \<Rightarrow> (None, beta_filter)
                     | Some beta \<Rightarrow>
                    if beta_max params \<le> beta then (None, beta_filter) else
                    (case get_monthly_data_tab2 p symbol of
                       None \<Rightarrow> (None, no_monthly_data)
                     | Some df \<Rightarrow>
                    if length df < 50 then (None, no_monthly_data) else
                    (case calculate_macd (map w_close df) 12 26 9 of
                       Inl e \<Rightarrow> (None, error)
                     | Inr m \<Rightarrow>
                         (let dea = last (DEA m); dif = last (DIF m);
                              close = w_close (last df)
                          in (Some \<lparr>t2_code = symbol, t2_name = name,
                                     t2_close = py_round close 2,
                                     t2_market_cap = py_round market_cap 2,
                                     t2_PB = py_round pb_ratio 2,
                                     t2_Beta = py_round beta 2,
                                     t2_DEA = py_round dea 4,
                                     t2_signal = (if dea < dif then Golden_cross
                                                  else Pending_cross)\<rparr>,
                              matched))))))))"

section \<open>Job orchestrator\<close>

subsection \<open>Symbol universe\<close>

text \<open>
  The symbol table is a list of (code, name) rows. Rows whose name contains \<open>ST\<close> or the
  delisting character (three bytes in UTF-8) are removed, rows whose code does not start
  with 00, 30, 60 or 68 are removed, and a fraction below one is sub-sampled.
\<close>

fun contains :: "string \<Rightarrow> string \<Rightarrow> bool" where
  "contains pat [] = (pat = [])"
| "contains pat (c # cs) = (take (length pat) (c # cs) = pat \<or> contains pat cs)"

definition delisting_mark :: string where
  "delisting_mark = [CHR 0xE9, CHR 0x80, CHR 0x80]"

definition resolve_universe :: "provider \<Rightarrow> real \<Rightarrow> py_error + (string \<times> string) list" where
  "resolve_universe p ratio =
     (case stock_info_a_code_name p of
        Raises e \<Rightarrow> Inl e
      | Returns table \<Rightarrow>
          (let stocks = filter (\<lambda>(code, name).
                                  \<not> (contains ''ST'' name \<or> contains delisting_mark name)) table;
               stocks = filter (\<lambda>(code, name).
                                  take 2 code \<in> {''00'', ''30'', ''60'', ''68''}) stocks
           in Inr (if ratio < 1 then sample p ratio stocks else stocks)))"

subsection \<open>Start requests\<close>

text \<open>
  \<open>start\<close> stores a fresh idle dictionary under the tab, starts a thread for the task and
  answers \<open>ok\<close>; it tests nothing. The thread it starts is returned as a description.
\<close>

datatype response = Ok_true

datatype task = Run_task_tab1 real string bool | Run_task_tab2 real string

definition start :: "tab \<Rightarrow> string \<Rightarrow> real \<Rightarrow> bool \<Rightarrow> world \<Rightarrow> response \<times> task \<times> world" where
  "start t mode ratio golden_only w =
     (let a = next_addr w;
          w' = w\<lparr>heap := (heap w)(a := fresh_job t mode golden_only),
                 next_addr := Suc a,
                 STATE := (STATE w)(t := a)\<rparr>
      in (Ok_true,
          (case t of Tab1 \<Rightarrow> Run_task_tab1 ratio mode golden_only
                   | Tab2 \<Rightarrow> Run_task_tab2 ratio mode),
          w'))"

subsection \<open>The weekly task\<close>

text \<open>
  \<open>run_task_tab1\<close> in its steps. \<open>enter_tab1\<close> is the non-blocking test of the lock: if
  the lock is held the thread writes status \<open>error\<close> and the already-running message
  into the dictionary \<open>STATE\<close> points to and ends; otherwise it takes the lock, binds
  \<open>state\<close> to that dictionary and resets it to running.
\<close>

definition enter_tab1 :: "string \<Rightarrow> bool \<Rightarrow> world \<Rightarrow> nat option \<times> world" where
  "enter_tab1 mode golden_only w =
     (if TASK_LOCKS w Tab1
      then (None,
            update_job (STATE w Tab1)
              (\<lambda>j. j\<lparr>j_status := job_error, j_message := Msg_already_running Tab1\<rparr>) w)
      else (let w1 = w\<lparr>TASK_LOCKS := (TASK_LOCKS w)(Tab1 := True)\<rparr>;
                state = STATE w1 Tab1
            in (Some state,
                update_job state
                  (\<lambda>j. j\<lparr>j_status := job_running, j_progress := 0, j_results := [],
                         j_success := 0, j_failed := 0, j_matched := 0,
                         j_message := Msg_fetching_stock_list, j_mode := mode,
                         j_golden_only := Some golden_only\<rparr>) w1)))"

text \<open>
  One pass of the loop body for the row \<open>(code, name)\<close> at index \<open>i\<close>. An exception of
  \<open>screen_stock_tab1\<close> leaves the loop; the writes made before it stay.
\<close>

definition iteration_tab1 ::
  "provider \<Rightarrow> string \<Rightarrow> bool \<Rightarrow> nat \<Rightarrow> nat \<Rightarrow> string \<times> string \<Rightarrow> world
     \<Rightarrow> py_error option \<times> world" where
  "iteration_tab1 p mode golden_only state i row w =
     (let (code, name) = row;
          w1 = update_job state
                 (\<lambda>j. j\<lparr>j_progress := i + 1, j_current_stock := code @ '' '' @ name\<rparr>) w
      in case screen_stock_tab1 p mode golden_only code name w1 of
           Inl e \<Rightarrow> (Some e, w1)
         | Inr ((result, st), w2) \<Rightarrow>
             (None,
              case result of
                Some r \<Rightarrow>
                  update_job state
                    (\<lambda>j. j\<lparr>j_results := j_results j @ [Weekly r],
                           j_matched := j_matched j + 1,
                           j_success := j_success j + 1\<rparr>) w2
              | None \<Rightarrow>
                  if st \<in> {no_data, error}
                  then update_job state (\<lambda>j. j\<lparr>j_failed := j_failed j + 1\<rparr>) w2
                  else update_job state (\<lambda>j. j\<lparr>j_success := j_success j + 1\<rparr>) w2))"

fun loop_tab1 ::
  "provider \<Rightarrow> string \<Rightarrow> bool \<Rightarrow> nat \<Rightarrow> nat \<Rightarrow> (string \<times> string) list \<Rightarrow> world
     \<Rightarrow> py_error option \<times> world" where
  "loop_tab1 p mode golden_only state i [] w = (None, w)"
| "loop_tab1 p mode golden_only state i (row # rows) w =
     (case iteration_tab1 p mode golden_only state i row w of
        (Some e, w') \<Rightarrow> (Some e, w')
      | (None, w') \<Rightarrow> loop_tab1 p mode golden_only state (Suc i) rows w')"

definition deviation_key :: "screen_result \<Rightarrow> real" where
  "deviation_key r = (case r of Weekly x \<Rightarrow> res_deviation_pct x | Fundamental y \<Rightarrow> 0)"

definition market_cap_key :: "screen_result \<Rightarrow> real" where
  "market_cap_key r = (case r of Weekly x \<Rightarrow> 0 | Fundamental y \<Rightarrow> t2_market_cap y)"

text \<open>
  The part of the task under the lock: resolve the universe, run the loop, sort the
  results by deviation and mark the job completed. The outer handler writes status
  \<open>error\<close> and the exception's text through \<open>STATE\<close>; the lock is released in any case.
\<close>

definition body_tab1 ::
  "provider \<Rightarrow> real \<Rightarrow> string \<Rightarrow> bool \<Rightarrow> nat \<Rightarrow> world \<Rightarrow> py_error option \<times> world" where
  "body_tab1 p ratio mode golden_only state w =
     (case resolve_universe p ratio of
        Inl e \<Rightarrow> (Some e, w)
      | Inr stocks \<Rightarrow>
          (let w1 = update_job state (\<lambda>j. j\<lparr>j_total := length stocks\<rparr>) w
           in case loop_tab1 p mode golden_only state 0 stocks w1 of
                (Some e, w2) \<Rightarrow> (Some e, w2)
              | (None, w2) \<Rightarrow>
                  (None,
                   update_job state
                     (\<lambda>j. j\<lparr>j_results := sort_key deviation_key (j_results j),
                            j_status := job_completed,
                            j_message := Msg_done (length (j_results j))\<rparr>) w2)))"

definition leave :: "tab \<Rightarrow> py_error option \<times> world \<Rightarrow> world" where
  "leave t outcome =
     (let (raised, w) = outcome;
          w1 = (case raised of
                  None \<Rightarrow> w
                | Some e \<Rightarrow>
                    update_job (STATE w t)
                      (\<lambda>j. j\<lparr>j_status := job_error, j_message := Msg_exception e\<rparr>) w)
      in w1\<lparr>TASK_LOCKS := (TASK_LOCKS w1)(t := False)\<rparr>)"

definition run_task_tab1 :: "provider \<Rightarrow> real \<Rightarrow> string \<Rightarrow> bool \<Rightarrow> world \<Rightarrow> world" where
  "run_task_tab1 p ratio mode golden_only w =
     (case enter_tab1 mode golden_only w of
        (None, w1) \<Rightarrow> w1
      | (Some state, w1) \<Rightarrow> leave Tab1 (body_tab1 p ratio mode golden_only state w1))"

subsection \<open>The fundamental task\<close>

definition get_market_macd_signal :: "provider \<Rightarrow> world \<Rightarrow> real \<times> world" where
  "get_market_macd_signal p w =
     (case stock_zh_index_hist_monthly p of
        Raises e \<Rightarrow> (0, w)
      | Returns None \<Rightarrow> (0, w)
      | Returns (Some df) \<Rightarrow>
          if length df < 50 then (0, w)
          else (case calculate_macd (map w_close df) 12 26 9 of
                  Inl e \<Rightarrow> (0, w)
                | Inr m \<Rightarrow>
                    (let last_macd = last (MACD_hist m)
                     in (last_macd,
                         update_job (STATE w Tab2)
                           (\<lambda>j. j\<lparr>j_market_macd := Some (py_round last_macd 4)\<rparr>) w))))"

definition enter_tab2 :: "string \<Rightarrow> world \<Rightarrow> nat option \<times> world" where
  "enter_tab2 mode w =
     (if TASK_LOCKS w Tab2
      then (None,
            update_job (STATE w Tab2)
              (\<lambda>j. j\<lparr>j_status := job_error, j_message := Msg_already_running Tab2\<rparr>) w)
      else (let w1 = w\<lparr>TASK_LOCKS := (TASK_LOCKS w)(Tab2 := True)\<rparr>;
                state = STATE w1 Tab2
            in (Some state,
                update_job state
                  (\<lambda>j. j\<lparr>j_status := job_running, j_progress := 0, j_results := [],
                         j_success := 0, j_failed := 0, j_matched := 0,
                         j_message := Msg_fetching_market_signal, j_mode := mode\<rparr>) w1)))"

definition iteration_tab2 ::
  "provider \<Rightarrow> string \<Rightarrow> nat \<Rightarrow> nat \<Rightarrow> string \<times> string \<Rightarrow> world \<Rightarrow> py_error option \<times> world" where
  "iteration_tab2 p mode state i row w =
     (let (code, name) = row;
          w1 = update_job state
                 (\<lambda>j. j\<lparr>j_progress := i + 1, j_current_stock := code @ '' '' @ name\<rparr>) w
      in case screen_stock_tab2 p mode code name of
           Inl e \<Rightarrow> (Some e, w1)
         | Inr (result, st) \<Rightarrow>
             (None,
              case result of
                Some r \<Rightarrow>
                  update_job state
                    (\<lambda>j. j\<lparr>j_results := j_results j @ [Fundamental r],
                           j_matched := j_matched j + 1,
                           j_success := j_success j + 1\<rparr>) w1
              | None \<Rightarrow>
                  if st \<in> {no_fundamental, no_monthly_data, error}
                  then update_job state (\<lambda>j. j\<lparr>j_failed := j_failed j + 1\<rparr>) w1
                  else update_job state (\<lambda>j. j\<lparr>j_success := j_success j + 1\<rparr>) w1))"

fun loop_tab2 ::
  "provider \<Rightarrow> string \<Rightarrow> nat \<Rightarrow> nat \<Rightarrow> (string \<times> string) list \<Rightarrow> world
     \<Rightarrow> py_error option \<times> world" where
  "loop_tab2 p mode state i [] w = (None, w)"
| "loop_tab2 p mode state i (row # rows) w =
     (case iteration_tab2 p mode state i row w of
        (Some e, w') \<Rightarrow> (Some e, w')
      | (None, w') \<Rightarrow> loop_tab2 p mode state (Suc i) rows w')"

text \<open>
  The task first reads the market signal and writes the message that shows the rounded
  value stored in the dictionary.
\<close>

definition announce_market :: "provider \<Rightarrow> nat \<Rightarrow> world \<Rightarrow> world" where
  "announce_market p state w =
     (let (market_macd, w0) = get_market_macd_signal p w;
          shown = (case j_market_macd (heap w0 state) of Some v \<Rightarrow> v | None \<Rightarrow> 0)
      in update_job state
           (\<lambda>j. j\<lparr>j_message := (if 0 < market_macd then Msg_market_caution shown
                                   else Msg_market_clear shown)\<rparr>) w0)"

definition body_tab2 ::
  "provider \<Rightarrow> real \<Rightarrow> string \<Rightarrow> nat \<Rightarrow> world \<Rightarrow> py_error option \<times> world" where
  "body_tab2 p ratio mode state w =
     (let w0 = announce_market p state w
      in case resolve_universe p ratio of
           Inl e \<Rightarrow> (Some e, w0)
         | Inr stocks \<Rightarrow>
             (let w1 = update_job state (\<lambda>j. j\<lparr>j_total := length stocks\<rparr>) w0
              in case loop_tab2 p mode state 0 stocks w1 of
                   (Some e, w2) \<Rightarrow> (Some e, w2)
                 | (None, w2) \<Rightarrow>
                     (None,
                      update_job state
                        (\<lambda>j. j\<lparr>j_results := rev (sort_key market_cap_key (rev (j_results j))),
                               j_status := job_completed,
                               j_message := Msg_done (length (j_results j))\<rparr>) w2)))"

definition run_task_tab2 :: "provider \<Rightarrow> real \<Rightarrow> string \<Rightarrow> world \<Rightarrow> world" where
  "run_task_tab2 p ratio mode w =
     (case enter_tab2 mode w of
        (None, w1) \<Rightarrow> w1
      | (Some state, w1) \<Rightarrow> leave Tab2 (body_tab2 p ratio mode state w1))"

subsection \<open>Notions used in the statements\<close>

text \<open>
  \<open>bookkeeping\<close> collects every field of a job dictionary except the data-source label,
  the one field that the data fetch writes. \<open>data_unavailable\<close> says that no source
  delivers a frame for the symbol; \<open>pipeline_raises\<close> says that a frame of at least 100
  rows is delivered and an exception is raised while it is evaluated.
\<close>

definition bookkeeping ::
  "job \<Rightarrow> job_status \<times> nat \<times> nat \<times> string \<times> screen_result list \<times> nat \<times> nat \<times> nat
          \<times> message \<times> string \<times> bool option \<times> real option" where
  "bookkeeping j =
     (j_status j, j_progress j, j_total j, j_current_stock j, j_results j, j_success j,
      j_failed j, j_matched j, j_message j, j_mode j, j_golden_only j, j_market_macd j)"



text \<open>The invariant of the symbol loops, for the job dictionary a worker holds.\<close>

definition loop_invariant :: "job \<Rightarrow> bool" where
  "loop_invariant j =
     (j_success j + j_failed j = j_progress j \<and> j_matched j = length (j_results j)
      \<and> j_matched j \<le> j_success j)"

text \<open>
  The dictionary a worker holds at the end of its \<open>k\<close>-th iteration (\<open>k\<close> from one to the
  size of the universe), when the task got the lock, the universe resolved and none of
  these iterations raised.
\<close>

definition tab1_after ::
  "provider \<Rightarrow> real \<Rightarrow> string \<Rightarrow> bool \<Rightarrow> world \<Rightarrow> nat \<Rightarrow> job option" where
  "tab1_after p ratio mode golden_only w k =
     (case enter_tab1 mode golden_only w of
        (None, w1) \<Rightarrow> None
      | (Some state, w1) \<Rightarrow>
          (case resolve_universe p ratio of
             Inl e \<Rightarrow> None
           | Inr stocks \<Rightarrow>
               if k = 0 \<or> length stocks < k then None
               else (case loop_tab1 p mode golden_only state 0 (take k stocks)
                            (update_job state (\<lambda>j. j\<lparr>j_total := length stocks\<rparr>) w1) of
                       (Some e, wk) \<Rightarrow> None
                     | (None, wk) \<Rightarrow> Some (heap wk state))))"

definition tab2_after :: "provider \<Rightarrow> real \<Rightarrow> string \<Rightarrow> world \<Rightarrow> nat \<Rightarrow> job option" where
  "tab2_after p ratio mode w k =
     (case enter_tab2 mode w of
        (None, w1) \<Rightarrow> None
      | (Some state, w1) \<Rightarrow>
          (case resolve_universe p ratio of
             Inl e \<Rightarrow> None
           | Inr stocks \<Rightarrow>
               if k = 0 \<or> length stocks < k then None
               else (case loop_tab2 p mode state 0 (take k stocks)
                            (update_job state (\<lambda>j. j\<lparr>j_total := length stocks\<rparr>)
                              (announce_market p state w1)) of
                       (Some e, wk) \<Rightarrow> None
                     | (None, wk) \<Rightarrow> Some (heap wk state))))"

subsection \<open>Fixtures\<close>

text \<open>
  \<open>offline\<close> is a provider whose data sources all return nothing, for a given symbol
  table. \<open>five_provider\<close> serves five symbols: the weekly source has 100 flat weekly bars
  for each of them except \<open>600003\<close>, for which no source has data.
\<close>

definition offline :: "(string \<times> string) list \<Rightarrow> provider" where
  "offline table =
     \<lparr>stock_zh_a_hist_weekly = (\<lambda>symbol. Returns None),
      stock_zh_a_hist_tx = (\<lambda>symbol retry. Returns None),
      stock_zh_a_hist_monthly = (\<lambda>symbol retry. Returns None),
      stock_zh_index_hist_monthly = Returns None,
      stock_individual_info_em = (\<lambda>symbol retry. Returns None),
      calculate_beta = (\<lambda>symbol. None),
      stock_info_a_code_name = Returns table,
      sample = (\<lambda>ratio stocks. stocks)\<rparr>"


definition five_symbols :: "(string \<times> string) list" where
  "five_symbols =
     [(''600001'', ''A''), (''600002'', ''B''), (''600003'', ''C''), (''000004'', ''D''),
      (''300005'', ''E'')]"


text \<open>
  \<open>running_world\<close> is the state in the middle of a weekly job: a start request on the
  initial state, the worker past its lock test, the universe of five symbols resolved and
  two passes of the loop done against the offline provider.
\<close>

definition running_world :: world where
  "running_world =
     (let (answer, thread, w1) = start Tab1 ''default'' 1 False initial_world
      in case enter_tab1 ''default'' False w1 of
           (None, w2) \<Rightarrow> w2
         | (Some state, w2) \<Rightarrow>
             snd (loop_tab1 (offline five_symbols) ''default'' False state 0
                    (take 2 five_symbols)
                    (update_job state (\<lambda>j. j\<lparr>j_total := length five_symbols\<rparr>) w2)))"

section \<open>Properties of the indicator engine\<close>

lemma alpha_of_span:
  shows "1 / (1 + (spn - 1) / 2) = spec_alpha (spn::real)"
proof -
  have e: "1 + (spn - 1) / 2 = (spn + 1) / 2" by argo
  show ?thesis unfolding spec_alpha_def e by simp
qed

lemma ewm_loop_length: "length (ewm_loop a w vals) = length vals"
  by (induction vals arbitrary: w) (simp_all add: Let_def)

lemma ewm_loop_step:
  "(if w \<noteq> x then ((1 * (1 - a)) * w + a * x) / (1 * (1 - a) + a) else w)
     = a * x + (1 - a) * (w::real)"
proof -
  have "1 * (1 - a) + a = 1" by simp
  then show ?thesis by (simp add: algebra_simps)
qed

lemma ewm_loop_nth:
  assumes "t < length vals"
  shows "ewm_loop a w vals ! t =
           a * vals ! t + (1 - a) * (if t = 0 then w else ewm_loop a w vals ! (t - 1))"
  using assms
proof (induction vals arbitrary: w t)
  case Nil
  then show ?case by simp
next
  case (Cons x vals)
  let ?w' = "a * x + (1 - a) * w"
  have step: "ewm_loop a w (x # vals) = ?w' # ewm_loop a ?w' vals"
    by (simp only: ewm_loop.simps Let_def ewm_loop_step)
  show ?case
  proof (cases t)
    case 0
    then show ?thesis by (simp add: step del: ewm_loop.simps)
  next
    case (Suc k)
    with Cons.prems have k: "k < length vals" by simp
    show ?thesis
    proof (cases k)
      case 0
      with Suc k Cons.IH[OF k, of ?w'] show ?thesis
        by (simp add: step del: ewm_loop.simps)
    next
      case (Suc j)
      with \<open>t = Suc k\<close> k Cons.IH[OF k, of ?w'] show ?thesis
        by (simp add: step del: ewm_loop.simps)
    qed
  qed
qed

lemma ewm_cons_nth:
  assumes "t < length rest"
  shows "(v # ewm_loop a v rest) ! Suc t
           = a * (v # rest) ! Suc t + (1 - a) * (v # ewm_loop a v rest) ! t"
  using ewm_loop_nth[OF assms, of a v] by (cases t) simp_all

lemma ewm_mean_ref:
  assumes "1 \<le> spn"
  shows "ewm_mean spn vals = Inr (map (ema_ref spn vals) [0..<length vals])"
proof (cases vals)
  case Nil
  with assms show ?thesis by (simp add: ewm_mean_def get_center_of_mass_def)
next
  case (Cons v rest)
  let ?a = "spec_alpha spn"
  let ?ys = "v # ewm_loop ?a v rest"
  have run: "ewm_mean spn vals = Inr ?ys"
    using assms Cons by (simp add: ewm_mean_def get_center_of_mass_def alpha_of_span)
  have pt: "t < length vals \<Longrightarrow> ?ys ! t = ema_ref spn vals t" for t
  proof (induction t)
    case 0
    with Cons show ?case by simp
  next
    case (Suc t)
    then have "t < length rest" using Cons by simp
    from ewm_cons_nth[OF this, of v ?a] Suc Cons show ?case by simp
  qed
  have "?ys = map (ema_ref spn vals) [0..<length vals]"
  proof (rule nth_equalityI)
    show "length ?ys = length (map (ema_ref spn vals) [0..<length vals])"
      using Cons by (simp add: ewm_loop_length)
  next
    fix i
    assume "i < length ?ys"
    then have i: "i < length vals" using Cons by (simp add: ewm_loop_length)
    then have "map (ema_ref spn vals) [0..<length vals] ! i = ema_ref spn vals i"
      by (simp del: upt_Suc)
    with pt[OF i] show "?ys ! i = map (ema_ref spn vals) [0..<length vals] ! i" by simp
  qed
  with run show ?thesis by simp
qed

lemma calculate_macd_ref:
  assumes "1 \<le> fast" and "1 \<le> slow" and "1 \<le> signal"
  shows "calculate_macd close fast slow signal =
           Inr \<lparr>DIF = map (dif_ref close fast slow) [0..<length close],
                DEA = map (dea_ref close fast slow signal) [0..<length close],
                MACD_hist = map (hist_ref close fast slow signal) [0..<length close]\<rparr>"
proof -
  let ?n = "length close"
  let ?dif = "map (dif_ref close fast slow) [0..<?n]"
  have dif: "map2 (-) (map (ema_ref fast close) [0..<?n]) (map (ema_ref slow close) [0..<?n])
               = ?dif"
    by (rule nth_equalityI) (simp_all add: dif_ref_def del: upt_Suc)
  have dea: "map (ema_ref signal ?dif) [0..<length ?dif]
               = map (dea_ref close fast slow signal) [0..<?n]"
    by (simp add: dea_ref_def del: upt_Suc)
  have hist: "map2 (\<lambda>d e. 2 * (d - e)) ?dif (map (dea_ref close fast slow signal) [0..<?n])
               = map (hist_ref close fast slow signal) [0..<?n]"
    by (rule nth_equalityI) (simp_all add: hist_ref_def del: upt_Suc)
  show ?thesis
    unfolding calculate_macd_def
    by (simp only: ewm_mean_ref[OF assms(1)] ewm_mean_ref[OF assms(2)]
        ewm_mean_ref[OF assms(3)] sum.case Let_def dif dea hist)
qed

lemma golden_run:
  "calculate_macd golden_close 2 4 2
     = Inr \<lparr>DIF = golden_dif, DEA = golden_dea, MACD_hist = golden_hist\<rparr>"
  by (simp add: calculate_macd_def ewm_mean_def get_center_of_mass_def Let_def
      golden_close_def golden_dif_def golden_dea_def golden_hist_def)

lemma ewm_loop_const: "ewm_loop a c (replicate n c) = replicate n c"
  by (induction n) (simp_all add: Let_def)

lemma ewm_mean_const:
  assumes "1 \<le> spn"
  shows "ewm_mean spn (replicate n c) = Inr (replicate n c)"
  using assms
  by (cases n) (simp_all add: ewm_mean_def get_center_of_mass_def ewm_loop_const)

lemma map2_replicate: "map2 f (replicate n a) (replicate n b) = replicate n (f a b)"
  by (induction n) simp_all

lemma calculate_macd_const:
  assumes "1 \<le> fast" and "1 \<le> slow" and "1 \<le> signal"
  shows "calculate_macd (replicate n c) fast slow signal =
           Inr \<lparr>DIF = replicate n 0, DEA = replicate n 0, MACD_hist = replicate n 0\<rparr>"
  using assms by (simp add: calculate_macd_def ewm_mean_const map2_replicate Let_def)

text \<open>
  Claim C3. For a non-empty close series and a span that pandas accepts (at least one),
  the exponentially weighted mean is computed, has one value per bar, starts at the first
  observed price, and from the second bar on satisfies
  \<open>ema[t] = \<alpha> price[t] + (1 - \<alpha>) ema[t-1]\<close> with \<open>\<alpha> = 2 / (span + 1)\<close>.
\<close>

theorem ewm_mean_recurrence:
  assumes "1 \<le> spn" and "price \<noteq> []"
  shows "\<exists>ema. ewm_mean spn price = Inr ema \<and> length ema = length price
           \<and> ema ! 0 = price ! 0
           \<and> (\<forall>t. 1 \<le> t \<and> t < length price \<longrightarrow>
                  ema ! t = (2 / (spn + 1)) * price ! t + (1 - 2 / (spn + 1)) * ema ! (t - 1))"
proof -
  let ?ema = "map (ema_ref spn price) [0..<length price]"
  have pos: "0 < length price" using assms(2) by simp
  have at: "t < length price \<Longrightarrow> ?ema ! t = ema_ref spn price t" for t
    by (simp del: upt_Suc)
  have rec: "?ema ! t = (2 / (spn + 1)) * price ! t + (1 - 2 / (spn + 1)) * ?ema ! (t - 1)"
    if "1 \<le> t" and "t < length price" for t
  proof -
    from that obtain k where k: "t = Suc k" by (cases t) auto
    with that have "k < length price" by simp
    with at[OF this] at[OF that(2)] k show ?thesis
      by (simp add: spec_alpha_def del: upt_Suc)
  qed
  have first: "?ema ! 0 = price ! 0" using at[OF pos] by simp
  have len: "length ?ema = length price" by simp
  show ?thesis
    using ewm_mean_ref[OF assms(1), of price] len first rec by blast
qed

theorem ewm_mean_recurrence_witness:
  "(1::real) \<le> 3 \<and> [10, 13::real] \<noteq> [] \<and>
   (\<exists>ema. ewm_mean 3 [10, 13] = Inr ema \<and> length ema = 2 \<and> ema ! 0 = 10
      \<and> ema ! 1 = 23 / 2)"
proof -
  have h1: "(1::real) \<le> 3" and h2: "[10, 13::real] \<noteq> []" by simp_all
  from ewm_mean_recurrence[OF h1 h2] obtain ema where
    run: "ewm_mean 3 [10, 13] = Inr ema" and len: "length ema = 2"
    and first: "ema ! 0 = 10"
    and rec: "\<forall>t. 1 \<le> t \<and> t < length [10, 13::real] \<longrightarrow>
                ema ! t = (2 / (3 + 1)) * [10, 13] ! t + (1 - 2 / (3 + 1)) * ema ! (t - 1)"
    by auto
  from rec have "ema ! 1 = (2 / (3 + 1)) * [10, 13] ! 1 + (1 - 2 / (3 + 1)) * ema ! (1 - 1)"
    by simp
  with first have "ema ! 1 = 23 / 2" by simp
  with run len first show ?thesis by auto
qed

text \<open>
  Claim C4. For a close series of length at least one and spans that pandas accepts,
  \<open>calculate_macd\<close> returns three columns with one value per bar: DIF is the fast
  moving average minus the slow one, DEA is the moving average of the DIF column seeded
  with its first value, and the histogram is twice DIF minus DEA. On the close series
  10, 11, 12, 11, 10, 9, 10, 11, 12, 13 with spans 2, 4, 2 the DIF and DEA columns are the
  values of the reference recurrence, listed explicitly (in exact arithmetic).
\<close>

theorem calculate_macd_components:
  assumes "1 \<le> fast" and "1 \<le> slow" and "1 \<le> signal" and "close \<noteq> []"
  shows "(\<exists>m. calculate_macd close fast slow signal = Inr m
            \<and> length (DIF m) = length close \<and> length (DEA m) = length close
            \<and> length (MACD_hist m) = length close
            \<and> (\<forall>t. t < length close \<longrightarrow>
                   DIF m ! t = ema_ref fast close t - ema_ref slow close t
                 \<and> DEA m ! t = ema_ref signal (DIF m) t
                 \<and> MACD_hist m ! t = 2 * (DIF m ! t - DEA m ! t)))
       \<and> calculate_macd golden_close 2 4 2
             = Inr \<lparr>DIF = golden_dif, DEA = golden_dea, MACD_hist = golden_hist\<rparr>
       \<and> golden_dif = map (dif_ref golden_close 2 4) [0..<length golden_close]
       \<and> golden_dea = map (dea_ref golden_close 2 4 2) [0..<length golden_close]"
proof -
  let ?m = "\<lparr>DIF = map (dif_ref close fast slow) [0..<length close],
             DEA = map (dea_ref close fast slow signal) [0..<length close],
             MACD_hist = map (hist_ref close fast slow signal) [0..<length close]\<rparr>"
  have run: "calculate_macd close fast slow signal = Inr ?m"
    by (rule calculate_macd_ref[OF assms(1-3)])
  have pt: "DIF ?m ! t = ema_ref fast close t - ema_ref slow close t
          \<and> DEA ?m ! t = ema_ref signal (DIF ?m) t
          \<and> MACD_hist ?m ! t = 2 * (DIF ?m ! t - DEA ?m ! t)" if "t < length close" for t
    using that by (simp add: dif_ref_def dea_ref_def hist_ref_def del: upt_Suc)
  have general: "\<exists>m. calculate_macd close fast slow signal = Inr m
            \<and> length (DIF m) = length close \<and> length (DEA m) = length close
            \<and> length (MACD_hist m) = length close
            \<and> (\<forall>t. t < length close \<longrightarrow>
                   DIF m ! t = ema_ref fast close t - ema_ref slow close t
                 \<and> DEA m ! t = ema_ref signal (DIF m) t
                 \<and> MACD_hist m ! t = 2 * (DIF m ! t - DEA m ! t))"
    using run pt by (intro exI[of _ ?m]) simp
  have "calculate_macd golden_close 2 4 2 =
          Inr \<lparr>DIF = map (dif_ref golden_close 2 4) [0..<length golden_close],
               DEA = map (dea_ref golden_close 2 4 2) [0..<length golden_close],
               MACD_hist = map (hist_ref golden_close 2 4 2) [0..<length golden_close]\<rparr>"
    by (rule calculate_macd_ref) simp_all
  with golden_run have
    "golden_dif = map (dif_ref golden_close 2 4) [0..<length golden_close]"
    "golden_dea = map (dea_ref golden_close 2 4 2) [0..<length golden_close]"
    by simp_all
  with general golden_run show ?thesis by blast
qed

theorem calculate_macd_components_witness:
  "(1::real) \<le> 2 \<and> (1::real) \<le> 3 \<and> [4, 7::real] \<noteq> [] \<and>
   (\<exists>m. calculate_macd [4, 7] 2 3 2 = Inr m \<and> length (DIF m) = 2
      \<and> DIF m ! 1 = ema_ref 2 [4, 7] 1 - ema_ref 3 [4, 7] 1
      \<and> DEA m ! 1 = ema_ref 2 (DIF m) 1
      \<and> MACD_hist m ! 1 = 2 * (DIF m ! 1 - DEA m ! 1))"
proof -
  have h: "(1::real) \<le> 2" "(1::real) \<le> 3" "(1::real) \<le> 2" "[4, 7::real] \<noteq> []"
    by simp_all
  from calculate_macd_components[OF h] show ?thesis by auto
qed

text \<open>
  Claim C5. For a constant close series of length at least one and spans that pandas
  accepts, the moving average is that constant at every index, and the DIF and histogram
  columns of \<open>calculate_macd\<close> are zero at every index.
\<close>

theorem constant_series:
  assumes "1 \<le> spn" and "1 \<le> fast" and "1 \<le> slow" and "1 \<le> signal" and "0 < n"
  shows "\<exists>ema m. ewm_mean spn (replicate n c) = Inr ema
           \<and> calculate_macd (replicate n c) fast slow signal = Inr m
           \<and> length ema = n \<and> length (DIF m) = n \<and> length (MACD_hist m) = n
           \<and> (\<forall>t. t < n \<longrightarrow> ema ! t = c \<and> DIF m ! t = 0 \<and> MACD_hist m ! t = 0)"
  using ewm_mean_const[OF assms(1), of n c] calculate_macd_const[OF assms(2-4), of n c]
  by simp

theorem constant_series_witness:
  "(1::real) \<le> 12 \<and> (1::real) \<le> 26 \<and> (1::real) \<le> 9 \<and> (0::nat) < 3 \<and>
   (\<exists>ema m. ewm_mean 12 (replicate 3 5) = Inr ema
      \<and> calculate_macd (replicate 3 5) 12 26 9 = Inr m
      \<and> ema ! 2 = 5 \<and> DIF m ! 2 = 0 \<and> MACD_hist m ! 2 = 0)"
proof -
  have h: "(1::real) \<le> 12" "(1::real) \<le> 12" "(1::real) \<le> 26" "(1::real) \<le> 9"
    "(0::nat) < 3" by simp_all
  from constant_series[OF h, of 5] show ?thesis by auto
qed

section \<open>Properties of the weekly resampling\<close>

lemma weekday_range: "0 \<le> weekday d \<and> weekday d < 7"
  by (simp add: weekday_def)

lemma week_label_bounds: "d \<le> week_label d \<and> week_label d \<le> d + 6"
proof -
  have "0 \<le> (4 - weekday d) mod 7 \<and> (4 - weekday d) mod 7 < 7" by simp
  then show ?thesis by (simp add: week_label_def)
qed

lemma same_residue_close:
  fixes a b :: int
  assumes "a mod 7 = b mod 7" and "a \<le> b" and "b < a + 7"
  shows "a = b"
proof -
  from assms(1) have "b mod 7 = a mod 7" by simp
  then have "7 dvd (b - a)" by (simp add: mod_eq_dvd_iff)
  then obtain k where k: "b - a = 7 * k" by (auto simp: dvd_def)
  with assms(2,3) have "0 \<le> 7 * k" "7 * k < 7" by simp_all
  then have "k = 0" by simp
  with k show ?thesis by simp
qed

lemma week_label_residue: "week_label d mod 7 = 1"
proof -
  let ?w = "(d + 3) mod 7"
  have "(d + (4 - ?w) mod 7) mod 7 = (d + (4 - ?w)) mod 7"
    by (simp add: mod_add_right_eq)
  also have "d + (4 - ?w) = (d + 3 - ?w) + 1" by simp
  also have "d + 3 - ?w = 7 * ((d + 3) div 7)" by (simp add: minus_mod_eq_mult_div)
  also have "(7 * ((d + 3) div 7) + 1) mod 7 = 1" by simp
  finally show ?thesis by (simp add: week_label_def weekday_def)
qed

lemma weekday_week_label: "weekday (week_label d) = 4"
proof -
  have "(week_label d + 3) mod 7 = (week_label d mod 7 + 3) mod 7"
    by (simp add: mod_add_left_eq)
  then show ?thesis by (simp add: weekday_def week_label_residue)
qed

lemma weekday_4_residue: "weekday l = 4 \<Longrightarrow> l mod 7 = 1"
proof -
  assume "weekday l = 4"
  then have a: "(l + 3) mod 7 = 4" by (simp add: weekday_def)
  have "l mod 7 = ((l + 3) + 4) mod 7" by simp
  also have "\<dots> = ((l + 3) mod 7 + 4) mod 7" by (simp only: mod_add_left_eq)
  finally show ?thesis using a by simp
qed

lemma week_label_iff:
  "week_label d = l \<longleftrightarrow> weekday l = 4 \<and> l - 6 \<le> d \<and> d \<le> l"
proof
  assume "week_label d = l"
  then show "weekday l = 4 \<and> l - 6 \<le> d \<and> d \<le> l"
    using weekday_week_label[of d] week_label_bounds[of d] by auto
next
  assume h: "weekday l = 4 \<and> l - 6 \<le> d \<and> d \<le> l"
  then have r: "week_label d mod 7 = l mod 7"
    by (simp add: week_label_residue weekday_4_residue)
  show "week_label d = l"
  proof (cases "week_label d \<le> l")
    case True
    with h week_label_bounds[of d] same_residue_close[OF r] show ?thesis by simp
  next
    case False
    with h week_label_bounds[of d] same_residue_close[OF r[symmetric]] show ?thesis by simp
  qed
qed

lemma week_label_mono:
  assumes "d \<le> d'"
  shows "week_label d \<le> week_label d'"
proof (rule ccontr)
  assume "\<not> week_label d \<le> week_label d'"
  then have lt: "week_label d' < week_label d" by simp
  have r: "week_label d' mod 7 = week_label d mod 7" by (simp add: week_label_residue)
  have "week_label d < week_label d' + 7"
    using week_label_bounds[of d] week_label_bounds[of d'] assms by simp
  with same_residue_close[OF r] lt show False by simp
qed

lemma week_label_step:
  "week_label d' = week_label d + 7 * ((week_label d' - week_label d) div 7)"
proof -
  have "(week_label d' - week_label d) mod 7 = (week_label d' mod 7 - week_label d mod 7) mod 7"
    by (simp only: mod_diff_eq)
  then have "(week_label d' - week_label d) mod 7 = 0"
    by (simp add: week_label_residue)
  then have "7 * ((week_label d' - week_label d) div 7) = week_label d' - week_label d"
    by (simp add: mod_eq_0_iff_dvd)
  then show ?thesis by simp
qed

lemma week_label_trading_day:
  assumes "weekday d \<le> 4"
  shows "week_label d = iso_week_start d + 4"
proof -
  have "0 \<le> 4 - weekday d" "4 - weekday d < 7"
    using assms weekday_range[of d] by simp_all
  then have "(4 - weekday d) mod 7 = 4 - weekday d" by simp
  then show ?thesis by (simp add: week_label_def iso_week_start_def)
qed

lemma dropna_Cons:
  "dropna (r # rs) =
     (if a_open r \<noteq> None \<and> a_high r \<noteq> None \<and> a_low r \<noteq> None \<and> a_close r \<noteq> None
      then r # dropna rs else dropna rs)"
  by (simp add: dropna_def)

lemma agg_complete:
  "(a_open (agg l g) \<noteq> None \<and> a_high (agg l g) \<noteq> None \<and> a_low (agg l g) \<noteq> None
      \<and> a_close (agg l g) \<noteq> None) \<longleftrightarrow> g \<noteq> []"
  by (cases g) (simp_all add: agg_def agg_first_def agg_last_def agg_max_def agg_min_def)

lemma dropna_agg:
  "dropna (map (\<lambda>l. agg l (f l)) ls) = map (\<lambda>l. agg l (f l)) (filter (\<lambda>l. f l \<noteq> []) ls)"
proof (induction ls)
  case Nil
  show ?case by (simp add: dropna_def)
next
  case (Cons l ls)
  then show ?case
    by (simp only: list.map dropna_Cons agg_complete filter.simps split: if_splits) simp
qed


lemma bin_labels_sorted: "sorted_wrt (<) (bin_labels bars)"
proof -
  have "sorted_wrt (<) (map (\<lambda>k. a + 7 * int k) [0..<n])" for a :: int and n
    by (simp add: sorted_wrt_map sorted_wrt_upt del: upt_Suc) 
  then show ?thesis by (simp add: bin_labels_def Let_def del: upt_Suc split: list.splits)
qed

lemma sorted_dates_hd_last:
  assumes "sorted (map d_date xs)" and "b \<in> set xs"
  shows "d_date (hd xs) \<le> d_date b \<and> d_date b \<le> d_date (last xs)"
proof -
  from assms(2) obtain i where i: "i < length xs" "xs ! i = b"
    by (auto simp: in_set_conv_nth)
  then have ne: "xs \<noteq> []" by auto
  have "map d_date xs ! 0 \<le> map d_date xs ! i"
    using assms(1) i(1) by (intro sorted_nth_mono) simp_all
  moreover have "map d_date xs ! i \<le> map d_date xs ! (length xs - 1)"
    using assms(1) i(1) by (intro sorted_nth_mono) simp_all
  ultimately show ?thesis using i ne by (simp add: hd_conv_nth last_conv_nth)
qed

lemma bin_labels_covers:
  assumes "sorted (map d_date xs)" and "b \<in> set xs"
  shows "week_label (d_date b) \<in> set (bin_labels xs)"
proof -
  from assms(2) obtain x rest where xs: "xs = x # rest" by (cases xs) auto
  let ?first = "week_label (d_date x)"
  let ?final = "week_label (d_date (last xs))"
  let ?l = "week_label (d_date b)"
  from sorted_dates_hd_last[OF assms] xs
  have lo: "?first \<le> ?l" and hi: "?l \<le> ?final"
    by (simp_all add: week_label_mono)
  let ?k = "nat ((?l - ?first) div 7)"
  have nonneg: "0 \<le> (?l - ?first) div 7" using lo by simp
  have eq: "?l = ?first + 7 * int ?k"
    using week_label_step[of "d_date b" "d_date x"] nonneg by simp
  have "(?l - ?first) div 7 \<le> (?final - ?first) div 7"
    using hi by (intro zdiv_mono1) simp_all
  then have "?k \<in> {0..<Suc (nat ((?final - ?first) div 7))}" using nonneg by simp
  then have "(\<lambda>k. ?first + 7 * int k) ?k
               \<in> (\<lambda>k. ?first + 7 * int k) ` {0..<Suc (nat ((?final - ?first) div 7))}"
    by (rule imageI)
  then have "?l \<in> set (map (\<lambda>k. ?first + 7 * int k)
                 [0..<Suc (nat ((?final - ?first) div 7))])"
    using eq by (simp del: upt_Suc)
  then show ?thesis by (simp add: bin_labels_def xs Let_def del: upt_Suc)
qed

lemma bin_labels_only:
  assumes "l \<in> set (bin_labels xs)"
  shows "weekday l = 4"
proof -
  from assms obtain x rest where xs: "xs = x # rest" by (cases xs) (auto simp: bin_labels_def)
  from assms obtain k where "l = week_label (d_date x) + 7 * int k"
    by (auto simp: bin_labels_def xs Let_def simp del: upt_Suc)
  then have "l + 3 = (week_label (d_date x) + 3) + 7 * int k" by simp
  then have "(l + 3) mod 7 = (week_label (d_date x) + 3) mod 7"
    by (simp only: mod_mult_self2)
  then show ?thesis using weekday_week_label[of "d_date x"] by (simp add: weekday_def)
qed


lemma agg_values:
  assumes "g \<noteq> []"
  shows "rename_columns (agg l g) =
           \<lparr>w_date = l, w_open = d_open (hd g), w_high = Max (d_high ` set g),
            w_low = Min (d_low ` set g), w_close = d_close (last g),
            w_volume = sum_list (map d_amount g)\<rparr>"
proof -
  from assms obtain b rest where g: "g = b # rest" by (cases g) auto
  have mx: "fold max (map d_high rest) (d_high b) = Max (d_high ` set g)"
    using Max.set_eq_fold[of "d_high b" "map d_high rest"] by (simp add: g)
  have mn: "fold min (map d_low rest) (d_low b) = Min (d_low ` set g)"
    using Min.set_eq_fold[of "d_low b" "map d_low rest"] by (simp add: g)
  have "rename_columns (agg l (b # rest)) =
           \<lparr>w_date = l, w_open = d_open b,
            w_high = fold max (map d_high rest) (d_high b),
            w_low = fold min (map d_low rest) (d_low b),
            w_close = last (map d_close (b # rest)),
            w_volume = sum_list (map d_amount (b # rest))\<rparr>"
    by (simp add: rename_columns_def agg_def agg_first_def agg_max_def agg_min_def
        agg_last_def)
  then show ?thesis
    unfolding mx mn by (simp add: g last_map)
qed

lemma resample_rows:
  "resample_W_FRI df =
     map (\<lambda>l. rename_columns (agg l (bin_bars l (sort_index df))))
       (filter (\<lambda>l. bin_bars l (sort_index df) \<noteq> []) (bin_labels (sort_index df)))"
  by (simp add: resample_W_FRI_def Let_def dropna_agg)

lemma resample_dates:
  "map w_date (resample_W_FRI df) =
     filter (\<lambda>l. bin_bars l (sort_index df) \<noteq> []) (bin_labels (sort_index df))"
proof -
  have "w_date (rename_columns (agg l g)) = l" for l g
    by (simp add: rename_columns_def agg_def)
  then show ?thesis by (simp add: resample_rows comp_def)
qed

lemma sort_index_props:
  "sorted (map d_date (sort_index df))" "set (sort_index df) = set df"
  by (simp_all add: sort_index_def)

lemma bin_bars_nonempty_iff:
  "bin_bars l xs \<noteq> [] \<longleftrightarrow> (\<exists>b \<in> set xs. week_label (d_date b) = l)"
  by (simp add: bin_bars_def filter_empty_conv)

lemma resample_date_set:
  "set (map w_date (resample_W_FRI df)) = (\<lambda>b. week_label (d_date b)) ` set df"
proof -
  let ?S = "sort_index df"
  have "l \<in> set (bin_labels ?S) \<and> bin_bars l ?S \<noteq> [] \<longleftrightarrow>
          l \<in> (\<lambda>b. week_label (d_date b)) ` set df" for l
    using bin_labels_covers[OF sort_index_props(1), of _ df]
    by (auto simp: bin_bars_nonempty_iff sort_index_props(2))
  then show ?thesis unfolding resample_dates by auto
qed

text \<open>
  Claim C7, as the code has it. Resampling the daily bars of the fallback source gives one
  weekly bar for every Friday week (Saturday to Friday) that holds at least one bar, in
  ascending order, and for no other week: only the weeks without a bar are dropped. Two
  dates that fall on Monday to Friday are in the same Friday week exactly when they are
  in the same ISO week. Each
  weekly bar is dated on its Friday and aggregates the bars of its week in date order:
  open of the first, highest high, lowest low, close of the last, sum of the amounts.
  For the ten-day fixture the two weekly bars are the hand-computed ones.
\<close>

theorem resample_W_FRI_weeks:
  "sorted_wrt (<) (map w_date (resample_W_FRI df))
   \<and> set (map w_date (resample_W_FRI df)) = (\<lambda>b. week_label (d_date b)) ` set df
   \<and> (\<forall>d d'. weekday d \<le> 4 \<and> weekday d' \<le> 4 \<longrightarrow>
         (week_label d = week_label d' \<longleftrightarrow> iso_week_start d = iso_week_start d'))
   \<and> (\<forall>r \<in> set (resample_W_FRI df).
         weekday (w_date r) = 4
       \<and> (let g = bin_bars (w_date r) (sort_index df)
          in g \<noteq> []
           \<and> set g = {b \<in> set df. w_date r - 6 \<le> d_date b \<and> d_date b \<le> w_date r}
           \<and> sorted (map d_date g)
           \<and> w_open r = d_open (hd g)
           \<and> w_high r = Max (d_high ` set g)
           \<and> w_low r = Min (d_low ` set g)
           \<and> w_close r = d_close (last g)
           \<and> w_volume r = sum_list (map d_amount g)))
   \<and> resample_W_FRI ten_days =
        [\<lparr>w_date = 19727, w_open = 10, w_high = 13, w_low = 9, w_close = 11,
          w_volume = 600\<rparr>,
         \<lparr>w_date = 19734, w_open = 11, w_high = 119 / 10, w_low = 19 / 2,
          w_close = 117 / 10, w_volume = 850\<rparr>]"
proof -
  let ?S = "sort_index df"
  have order: "sorted_wrt (<) (map w_date (resample_W_FRI df))"
    unfolding resample_dates by (intro sorted_wrt_filter bin_labels_sorted)
  have rows: "weekday (w_date r) = 4
       \<and> (let g = bin_bars (w_date r) ?S
          in g \<noteq> []
           \<and> set g = {b \<in> set df. w_date r - 6 \<le> d_date b \<and> d_date b \<le> w_date r}
           \<and> sorted (map d_date g)
           \<and> w_open r = d_open (hd g)
           \<and> w_high r = Max (d_high ` set g)
           \<and> w_low r = Min (d_low ` set g)
           \<and> w_close r = d_close (last g)
           \<and> w_volume r = sum_list (map d_amount g))"
    if "r \<in> set (resample_W_FRI df)" for r
  proof -
    from that obtain l where l: "l \<in> set (bin_labels ?S)" "bin_bars l ?S \<noteq> []"
      and r: "r = rename_columns (agg l (bin_bars l ?S))"
      unfolding resample_rows by auto
    let ?g = "bin_bars l ?S"
    have val: "r = \<lparr>w_date = l, w_open = d_open (hd ?g), w_high = Max (d_high ` set ?g),
            w_low = Min (d_low ` set ?g), w_close = d_close (last ?g),
            w_volume = sum_list (map d_amount ?g)\<rparr>"
      unfolding r by (rule agg_values[OF l(2)])
    have fri: "weekday l = 4" by (rule bin_labels_only[OF l(1)])
    have members: "set ?g = {b \<in> set df. l - 6 \<le> d_date b \<and> d_date b \<le> l}"
      using fri by (auto simp: bin_bars_def sort_index_props(2) week_label_iff)
    have sorted_g: "sorted (map d_date ?g)"
      unfolding bin_bars_def by (intro sorted_filter sort_index_props(1))
    have date: "w_date r = l" by (simp add: val)
    show ?thesis
      unfolding date Let_def using fri l(2) members sorted_g by (simp add: val)
  qed
  have fixture: "resample_W_FRI ten_days =
        [\<lparr>w_date = 19727, w_open = 10, w_high = 13, w_low = 9, w_close = 11,
          w_volume = 600\<rparr>,
         \<lparr>w_date = 19734, w_open = 11, w_high = 119 / 10, w_low = 19 / 2,
          w_close = 117 / 10, w_volume = 850\<rparr>]"
    by code_simp
  have iso: "\<forall>d d'. weekday d \<le> 4 \<and> weekday d' \<le> 4 \<longrightarrow>
         (week_label d = week_label d' \<longleftrightarrow> iso_week_start d = iso_week_start d')"
    by (simp add: week_label_trading_day)
  from order resample_date_set rows fixture iso show ?thesis by blast
qed

text \<open>
  Claim C7 as stated says that an incomplete trailing week is dropped. It is kept: for the
  fixture cut after Wednesday of the second week, the second weekly bar is built from the
  three bars Monday to Wednesday.
\<close>

theorem trailing_week_kept:
  "resample_W_FRI eight_days =
     [\<lparr>w_date = 19727, w_open = 10, w_high = 13, w_low = 9, w_close = 11, w_volume = 600\<rparr>,
      \<lparr>w_date = 19734, w_open = 11, w_high = 23 / 2, w_low = 19 / 2, w_close = 52 / 5,
       w_volume = 480\<rparr>]
   \<and> map d_date (bin_bars 19734 eight_days) = [19730, 19731, 19732]"
  by code_simp

theorem resample_W_FRI_weeks_witness:
  "\<lparr>w_date = 19727, w_open = 10, w_high = 25 / 2, w_low = 9, w_close = 12, w_volume = 330\<rparr>
      \<in> set (resample_W_FRI (take 3 ten_days))
   \<and> weekday 19727 = 4
   \<and> bin_bars 19727 (sort_index (take 3 ten_days)) \<noteq> []
   \<and> d_close (last (bin_bars 19727 (sort_index (take 3 ten_days)))) = 12"
proof -
  let ?r = "\<lparr>w_date = 19727, w_open = 10, w_high = 25 / 2, w_low = 9, w_close = 12,
             w_volume = 330\<rparr>"
  have mem: "?r \<in> set (resample_W_FRI (take 3 ten_days))" by code_simp
  from resample_W_FRI_weeks[of "take 3 ten_days"]
  have "\<forall>r \<in> set (resample_W_FRI (take 3 ten_days)).
         weekday (w_date r) = 4
       \<and> (let g = bin_bars (w_date r) (sort_index (take 3 ten_days))
          in g \<noteq> [] \<and> w_close r = d_close (last g))"
    unfolding Let_def by blast
  from bspec[OF this mem] mem show ?thesis by (simp add: Let_def)
qed

section \<open>Properties of the screening pipeline\<close>















section \<open>Properties of the job orchestrator\<close>

lemma update_job_simps [simp]:
  "heap (update_job a f w) = (heap w)(a := f (heap w a))"
  "STATE (update_job a f w) = STATE w"
  "TASK_LOCKS (update_job a f w) = TASK_LOCKS w"
  "eastmoney_ok (update_job a f w) = eastmoney_ok w"
  "next_addr (update_job a f w) = next_addr w"
  by (simp_all add: update_job_def)

lemma bookkeeping_source [simp]: "bookkeeping (j\<lparr>j_data_source := s\<rparr>) = bookkeeping j"
  by (simp add: bookkeeping_def)

lemma get_weekly_data_tab1_frame:
  assumes "get_weekly_data_tab1 p symbol w = (fetched, w')"
  shows "STATE w' = STATE w" and "TASK_LOCKS w' = TASK_LOCKS w"
    and "next_addr w' = next_addr w"
    and "bookkeeping (heap w' a) = bookkeeping (heap w a)"
  using assms
  by (auto simp: get_weekly_data_tab1_def Let_def
      split: if_splits call.splits option.splits prod.splits)


lemma screen_stock_tab1_frame:
  assumes "screen_stock_tab1 p mode golden_only symbol name w = Inr (verdict, w')"
  shows "STATE w' = STATE w" and "TASK_LOCKS w' = TASK_LOCKS w"
    and "next_addr w' = next_addr w"
    and "bookkeeping (heap w' a) = bookkeeping (heap w a)"
proof -
  obtain fetched w1 where g: "get_weekly_data_tab1 p symbol w = (fetched, w1)"
    by (cases "get_weekly_data_tab1 p symbol w")
  from assms have "w' = w1"
    by (auto simp: screen_stock_tab1_def g split: option.splits if_splits sum.splits)
  with get_weekly_data_tab1_frame[OF g]
  show "STATE w' = STATE w" and "TASK_LOCKS w' = TASK_LOCKS w"
    and "next_addr w' = next_addr w"
    and "bookkeeping (heap w' a) = bookkeeping (heap w a)"
    by simp_all
qed


lemma screen_stock_tab1_unknown:
  assumes "TAB1_MODES mode = None"
  shows "screen_stock_tab1 p mode golden_only symbol name w = Inl (KeyError mode)"
  using assms by (simp add: screen_stock_tab1_def)

lemma bookkeeping_fields:
  assumes "bookkeeping j' = bookkeeping j"
  shows "j_status j' = j_status j" "j_progress j' = j_progress j" "j_total j' = j_total j"
    "j_results j' = j_results j" "j_success j' = j_success j" "j_failed j' = j_failed j"
    "j_matched j' = j_matched j" "j_message j' = j_message j"
  using assms by (simp_all add: bookkeeping_def)


lemma iteration_tab1_unknown:
  assumes "TAB1_MODES mode = None"
  shows "iteration_tab1 p mode golden_only state i (code, name) w =
           (Some (KeyError mode),
            update_job state
              (\<lambda>j. j\<lparr>j_progress := i + 1, j_current_stock := code @ '' '' @ name\<rparr>) w)"
  by (simp add: iteration_tab1_def Let_def screen_stock_tab1_unknown[OF assms])

lemma iteration_tab1_effect:
  assumes "screen_stock_tab1 p mode golden_only code name
             (update_job state
               (\<lambda>j. j\<lparr>j_progress := i + 1, j_current_stock := code @ '' '' @ name\<rparr>) w)
           = Inr ((result, st), w2)"
    and "iteration_tab1 p mode golden_only state i (code, name) w = (raised, w')"
  shows "raised = None" and "j_progress (heap w' state) = Suc i"
    and "j_results (heap w' state) =
           j_results (heap w state) @ (case result of Some r \<Rightarrow> [Weekly r] | None \<Rightarrow> [])"
    and "j_matched (heap w' state) =
           j_matched (heap w state) + (case result of Some r \<Rightarrow> 1 | None \<Rightarrow> 0)"
    and "j_success (heap w' state) =
           j_success (heap w state)
             + (if result = None \<and> st \<in> {no_data, error} then 0 else 1)"
    and "j_failed (heap w' state) =
           j_failed (heap w state)
             + (if result = None \<and> st \<in> {no_data, error} then 1 else 0)"
proof -
  let ?w1 = "update_job state
               (\<lambda>j. j\<lparr>j_progress := i + 1, j_current_stock := code @ '' '' @ name\<rparr>) w"
  note keep = bookkeeping_fields[OF screen_stock_tab1_frame(4)[OF assms(1), of state]]
  from assms show "raised = None"
    by (simp add: iteration_tab1_def Let_def)
  from assms keep show "j_progress (heap w' state) = Suc i"
    by (auto simp: iteration_tab1_def Let_def split: option.splits if_splits)
  from assms keep show "j_results (heap w' state) =
           j_results (heap w state) @ (case result of Some r \<Rightarrow> [Weekly r] | None \<Rightarrow> [])"
    by (auto simp: iteration_tab1_def Let_def split: option.splits if_splits)
  from assms keep show "j_matched (heap w' state) =
           j_matched (heap w state) + (case result of Some r \<Rightarrow> 1 | None \<Rightarrow> 0)"
    by (auto simp: iteration_tab1_def Let_def split: option.splits if_splits)
  from assms keep show "j_success (heap w' state) =
           j_success (heap w state)
             + (if result = None \<and> st \<in> {no_data, error} then 0 else 1)"
    by (auto simp: iteration_tab1_def Let_def split: option.splits if_splits)
  from assms keep show "j_failed (heap w' state) =
           j_failed (heap w state)
             + (if result = None \<and> st \<in> {no_data, error} then 1 else 0)"
    by (auto simp: iteration_tab1_def Let_def split: option.splits if_splits)
qed

lemma iteration_tab1_invariant:
  assumes "iteration_tab1 p mode golden_only state i row w = (None, w')"
    and "loop_invariant (heap w state)" and "j_progress (heap w state) = i"
  shows "loop_invariant (heap w' state) \<and> j_progress (heap w' state) = Suc i"
proof -
  obtain code name where row: "row = (code, name)" by (cases row)
  let ?w1 = "update_job state
               (\<lambda>j. j\<lparr>j_progress := i + 1, j_current_stock := code @ '' '' @ name\<rparr>) w"
  from assms(1) obtain result st w2 where
    s: "screen_stock_tab1 p mode golden_only code name ?w1 = Inr ((result, st), w2)"
    by (auto simp: iteration_tab1_def row Let_def split: sum.splits)
  note e = iteration_tab1_effect[OF s assms(1)[unfolded row]]
  from assms(2,3) show ?thesis
    unfolding loop_invariant_def e by (cases result) auto
qed

lemma loop_tab1_invariant:
  assumes "loop_tab1 p mode golden_only state i rows w = (None, w')"
    and "loop_invariant (heap w state)" and "j_progress (heap w state) = i"
  shows "loop_invariant (heap w' state) \<and> j_progress (heap w' state) = i + length rows"
  using assms
proof (induction rows arbitrary: i w)
  case Nil
  then show ?case by simp
next
  case (Cons row rows)
  from Cons.prems(1) obtain w1 where
    it: "iteration_tab1 p mode golden_only state i row w = (None, w1)"
    and rest: "loop_tab1 p mode golden_only state (Suc i) rows w1 = (None, w')"
    by (auto split: prod.splits option.splits)
  from iteration_tab1_invariant[OF it Cons.prems(2,3)]
  have "loop_invariant (heap w1 state)" "j_progress (heap w1 state) = Suc i" by simp_all
  from Cons.IH[OF rest this] show ?case by simp
qed

lemma loop_tab1_append:
  "loop_tab1 p mode golden_only state i (xs @ ys) w =
     (case loop_tab1 p mode golden_only state i xs w of
        (Some e, w') \<Rightarrow> (Some e, w')
      | (None, w') \<Rightarrow> loop_tab1 p mode golden_only state (i + length xs) ys w')"
  by (induction xs arbitrary: i w) (auto split: prod.splits option.splits)


lemma iteration_tab2_invariant:
  assumes "iteration_tab2 p mode state i row w = (None, w')"
    and "loop_invariant (heap w state)" and "j_progress (heap w state) = i"
  shows "loop_invariant (heap w' state) \<and> j_progress (heap w' state) = Suc i"
proof -
  obtain code name where row: "row = (code, name)" by (cases row)
  from assms(1) obtain result st where
    s: "screen_stock_tab2 p mode code name = Inr (result, st)"
    by (auto simp: iteration_tab2_def row Let_def split: sum.splits)
  from assms show ?thesis
    unfolding loop_invariant_def
    by (cases result) (auto simp: iteration_tab2_def row Let_def s split: if_splits)
qed

lemma loop_tab2_invariant:
  assumes "loop_tab2 p mode state i rows w = (None, w')"
    and "loop_invariant (heap w state)" and "j_progress (heap w state) = i"
  shows "loop_invariant (heap w' state) \<and> j_progress (heap w' state) = i + length rows"
  using assms
proof (induction rows arbitrary: i w)
  case Nil
  then show ?case by simp
next
  case (Cons row rows)
  from Cons.prems(1) obtain w1 where
    it: "iteration_tab2 p mode state i row w = (None, w1)"
    and rest: "loop_tab2 p mode state (Suc i) rows w1 = (None, w')"
    by (auto split: prod.splits option.splits)
  from iteration_tab2_invariant[OF it Cons.prems(2,3)]
  have "loop_invariant (heap w1 state)" "j_progress (heap w1 state) = Suc i" by simp_all
  from Cons.IH[OF rest this] show ?case by simp
qed

lemma loop_tab2_append:
  "loop_tab2 p mode state i (xs @ ys) w =
     (case loop_tab2 p mode state i xs w of
        (Some e, w') \<Rightarrow> (Some e, w')
      | (None, w') \<Rightarrow> loop_tab2 p mode state (i + length xs) ys w')"
  by (induction xs arbitrary: i w) (auto split: prod.splits option.splits)

text \<open>
  The loop over the whole universe passes through the state reached on each prefix, so
  that state is the one at the end of the corresponding iteration.
\<close>

lemma loop_tab1_prefix:
  "loop_tab1 p mode golden_only state 0 stocks w =
     (case loop_tab1 p mode golden_only state 0 (take k stocks) w of
        (Some e, w') \<Rightarrow> (Some e, w')
      | (None, w') \<Rightarrow>
          loop_tab1 p mode golden_only state (length (take k stocks)) (drop k stocks) w')"
  using loop_tab1_append[of p mode golden_only state 0 "take k stocks" "drop k stocks" w]
  by (auto split: prod.splits option.splits)

lemma loop_tab2_prefix:
  "loop_tab2 p mode state 0 stocks w =
     (case loop_tab2 p mode state 0 (take k stocks) w of
        (Some e, w') \<Rightarrow> (Some e, w')
      | (None, w') \<Rightarrow> loop_tab2 p mode state (length (take k stocks)) (drop k stocks) w')"
  using loop_tab2_append[of p mode state 0 "take k stocks" "drop k stocks" w]
  by (auto split: prod.splits option.splits)

lemma enter_tab1_invariant:
  assumes "enter_tab1 mode golden_only w = (Some state, w1)"
  shows "loop_invariant (heap w1 state)" and "j_progress (heap w1 state) = 0"
    and "j_status (heap w1 state) = job_running" and "state = STATE w Tab1"
    and "STATE w1 = STATE w" and "TASK_LOCKS w1 Tab1" and "eastmoney_ok w1 = eastmoney_ok w"
  using assms
  by (auto simp: enter_tab1_def loop_invariant_def Let_def split: if_splits)

lemma enter_tab2_invariant:
  assumes "enter_tab2 mode w = (Some state, w1)"
  shows "loop_invariant (heap w1 state)" and "j_progress (heap w1 state) = 0"
    and "j_status (heap w1 state) = job_running" and "state = STATE w Tab2"
  using assms
  by (auto simp: enter_tab2_def loop_invariant_def Let_def split: if_splits)

lemma get_market_macd_signal_counters:
  assumes "get_market_macd_signal p w = (v, w')"
  shows "j_progress (heap w' a) = j_progress (heap w a)"
    and "j_success (heap w' a) = j_success (heap w a)"
    and "j_failed (heap w' a) = j_failed (heap w a)"
    and "j_matched (heap w' a) = j_matched (heap w a)"
    and "j_results (heap w' a) = j_results (heap w a)"
  using assms
  by (auto simp: get_market_macd_signal_def Let_def
      split: call.splits option.splits if_splits sum.splits)

lemma announce_market_invariant:
  assumes "loop_invariant (heap w state)" and "j_progress (heap w state) = 0"
  shows "loop_invariant (heap (announce_market p state w) state)"
    and "j_progress (heap (announce_market p state w) state) = 0"
proof -
  obtain v w0 where g: "get_market_macd_signal p w = (v, w0)"
    by (cases "get_market_macd_signal p w")
  note c = get_market_macd_signal_counters[OF g, of state]
  from assms show "loop_invariant (heap (announce_market p state w) state)"
    by (auto simp: announce_market_def g Let_def loop_invariant_def c)
  from assms show "j_progress (heap (announce_market p state w) state) = 0"
    by (simp add: announce_market_def g Let_def c)
qed

text \<open>
  Claim C10. At the end of every iteration of the symbol loop of the weekly task and of
  the fundamental task, the dictionary the worker holds satisfies
  \<open>success + failed = progress\<close> and \<open>matched = length results\<close>, hence
  \<open>matched \<le> success\<close>; the progress counter is the number of the iteration.
\<close>

lemma tab1_afterD:
  assumes "tab1_after p ratio mode golden_only w k = Some j"
  shows "\<exists>state w1 stocks wk.
           enter_tab1 mode golden_only w = (Some state, w1)
         \<and> resolve_universe p ratio = Inr stocks \<and> k \<le> length stocks
         \<and> loop_tab1 p mode golden_only state 0 (take k stocks)
               (update_job state (\<lambda>j. j\<lparr>j_total := length stocks\<rparr>) w1) = (None, wk)
         \<and> j = heap wk state"
  using assms
  by (fastforce simp: tab1_after_def split: prod.splits option.splits sum.splits if_splits)

lemma tab2_afterD:
  assumes "tab2_after p ratio mode w k = Some j"
  shows "\<exists>state w1 stocks wk.
           enter_tab2 mode w = (Some state, w1)
         \<and> resolve_universe p ratio = Inr stocks \<and> k \<le> length stocks
         \<and> loop_tab2 p mode state 0 (take k stocks)
               (update_job state (\<lambda>j. j\<lparr>j_total := length stocks\<rparr>)
                  (announce_market p state w1)) = (None, wk)
         \<and> j = heap wk state"
  using assms
  by (fastforce simp: tab2_after_def split: prod.splits option.splits sum.splits if_splits)

theorem symbol_loop_invariant:
  "(tab1_after p ratio mode golden_only w k = Some j \<longrightarrow>
      j_success j + j_failed j = j_progress j \<and> j_progress j = k
    \<and> j_matched j = length (j_results j) \<and> j_matched j \<le> j_success j)
 \<and> (tab2_after p ratio mode w k = Some j \<longrightarrow>
      j_success j + j_failed j = j_progress j \<and> j_progress j = k
    \<and> j_matched j = length (j_results j) \<and> j_matched j \<le> j_success j)"
proof (intro conjI impI)
  assume a: "tab1_after p ratio mode golden_only w k = Some j"
  from tab1_afterD[OF a] obtain state w1 stocks wk where
    e: "enter_tab1 mode golden_only w = (Some state, w1)"
    and k: "k \<le> length stocks"
    and l: "loop_tab1 p mode golden_only state 0 (take k stocks)
              (update_job state (\<lambda>j. j\<lparr>j_total := length stocks\<rparr>) w1) = (None, wk)"
    and j: "j = heap wk state"
    by blast
  let ?w = "update_job state (\<lambda>j. j\<lparr>j_total := length stocks\<rparr>) w1"
  have "loop_invariant (heap ?w state)" "j_progress (heap ?w state) = 0"
    using enter_tab1_invariant(1,2)[OF e] by (auto simp: loop_invariant_def)
  from loop_tab1_invariant[OF l this] k
  show "j_success j + j_failed j = j_progress j" "j_progress j = k"
    "j_matched j = length (j_results j)" "j_matched j \<le> j_success j"
    by (simp_all add: loop_invariant_def j)
next
  assume a: "tab2_after p ratio mode w k = Some j"
  from tab2_afterD[OF a] obtain state w1 stocks wk where
    e: "enter_tab2 mode w = (Some state, w1)"
    and k: "k \<le> length stocks"
    and l: "loop_tab2 p mode state 0 (take k stocks)
              (update_job state (\<lambda>j. j\<lparr>j_total := length stocks\<rparr>)
                 (announce_market p state w1)) = (None, wk)"
    and j: "j = heap wk state"
    by blast
  let ?w = "update_job state (\<lambda>j. j\<lparr>j_total := length stocks\<rparr>) (announce_market p state w1)"
  have "loop_invariant (heap ?w state)" "j_progress (heap ?w state) = 0"
    using announce_market_invariant[OF enter_tab2_invariant(1,2)[OF e], of p]
    by (auto simp: loop_invariant_def)
  from loop_tab2_invariant[OF l this] k
  show "j_success j + j_failed j = j_progress j" "j_progress j = k"
    "j_matched j = length (j_results j)" "j_matched j \<le> j_success j"
    by (simp_all add: loop_invariant_def j)
qed

theorem symbol_loop_invariant_witness:
  "\<exists>j1 j2.
     tab1_after (offline [(''600000'', ''A''), (''000001'', ''B'')]) 1 ''default'' False
       initial_world 2 = Some j1
   \<and> tab2_after (offline [(''600000'', ''A''), (''000001'', ''B'')]) 1 ''default''
       initial_world 2 = Some j2
   \<and> j_failed j1 = 2 \<and> j_success j1 + j_failed j1 = j_progress j1 \<and> j_progress j1 = 2
   \<and> j_matched j1 = length (j_results j1)
   \<and> j_failed j2 = 2 \<and> j_success j2 + j_failed j2 = j_progress j2 \<and> j_progress j2 = 2
   \<and> j_matched j2 = length (j_results j2)"
proof -
  let ?p = "offline [(''600000'', ''A''), (''000001'', ''B'')]"
  have "map_option j_failed (tab1_after ?p 1 ''default'' False initial_world 2) = Some 2"
    by code_simp
  then obtain j1 where j1: "tab1_after ?p 1 ''default'' False initial_world 2 = Some j1"
    and f1: "j_failed j1 = 2" by auto
  have "map_option j_failed (tab2_after ?p 1 ''default'' initial_world 2) = Some 2"
    by code_simp
  then obtain j2 where j2: "tab2_after ?p 1 ''default'' initial_world 2 = Some j2"
    and f2: "j_failed j2 = 2" by auto
  note t1 = symbol_loop_invariant[of ?p 1 "''default''" False initial_world 2 j1,
      THEN conjunct1, rule_format, OF j1]
  note t2 = symbol_loop_invariant[of ?p 1 "''default''" False initial_world 2 j2,
      THEN conjunct2, rule_format, OF j2]
  from j1 j2 f1 f2 t1 t2 show ?thesis by blast
qed











lemma start_answer:
  "fst (start t mode ratio golden_only w) = Ok_true"
  "status_query t (snd (snd (start t mode ratio golden_only w))) = fresh_job t mode golden_only"
  "TASK_LOCKS (snd (snd (start t mode ratio golden_only w))) = TASK_LOCKS w"
  "eastmoney_ok (snd (snd (start t mode ratio golden_only w))) = eastmoney_ok w"
  by (simp_all add: start_def Let_def status_query_def)

text \<open>
  Claim C2, evaluated on the code. A weekly job is running: its worker holds the lock and
  its dictionary shows progress 2 and two failures. A second start request for the same
  tab is answered \<open>ok\<close>, and the dictionary that status queries read is replaced by a
  fresh one: progress 0, all stats zero, status idle. The thread the request started then
  finds the lock held and writes status \<open>error\<close> with the already-running message into
  the fresh dictionary. The running worker's own dictionary still has its counters, but
  \<open>STATE\<close> no longer points to it.
\<close>

theorem start_while_running_resets:
  "TASK_LOCKS running_world Tab1
   \<and> (let j = status_query Tab1 running_world
      in (j_status j, j_progress j, j_failed j)) = (job_running, 2, 2)
   \<and> fst (start Tab1 ''default'' 1 False running_world) = Ok_true
   \<and> (let j = status_query Tab1 (snd (snd (start Tab1 ''default'' 1 False running_world)))
      in (j_status j, j_progress j, j_success j, j_failed j, j_matched j, j_results j))
       = (job_idle, 0, 0, 0, 0, [])
   \<and> (let w = run_task_tab1 (offline five_symbols) 1 ''default'' False
                (snd (snd (start Tab1 ''default'' 1 False running_world)));
          j = status_query Tab1 w
      in (j_status j, j_message j, j_progress j, j_failed j, TASK_LOCKS w Tab1,
          STATE w Tab1 = STATE running_world Tab1,
          j_progress (heap w (STATE running_world Tab1))))
       = (job_error, Msg_already_running Tab1, 0, 0, True, False, 2)"
  by code_simp

lemma unknown_mode_run:
  assumes "TAB1_MODES mode = None" and "\<not> TASK_LOCKS w Tab1"
    and "resolve_universe p ratio = Inr ((code, name) # rows)"
  shows "run_task_tab1 p ratio mode golden_only w =
           (update_job (STATE w Tab1)
              (\<lambda>j. j\<lparr>j_results := [], j_success := 0, j_failed := 0, j_matched := 0,
                     j_mode := mode, j_golden_only := Some golden_only,
                     j_total := Suc (length rows), j_progress := 1,
                     j_current_stock := code @ '' '' @ name,
                     j_status := job_error,
                     j_message := Msg_exception (KeyError mode)\<rparr>) w)
           \<lparr>TASK_LOCKS := (TASK_LOCKS w)(Tab1 := False)\<rparr>"
  using assms(2)
  by (simp add: run_task_tab1_def enter_tab1_def body_tab1_def assms(3) Let_def
      iteration_tab1_unknown[OF assms(1)] leave_def update_job_def fun_upd_idem)

lemma empty_universe_run:
  assumes "\<not> TASK_LOCKS w Tab1" and "resolve_universe p ratio = Inr []"
  shows "j_status (status_query Tab1 (run_task_tab1 p ratio mode golden_only w)) = job_completed"
  using assms(1)
  by (simp add: run_task_tab1_def enter_tab1_def body_tab1_def assms(2) Let_def leave_def
      status_query_def)

text \<open>
  Claim C8 as stated says that a start request with an unregistered mode fails at job
  start and the job never becomes running. On the code the request is answered \<open>ok\<close>,
  the job becomes running, and the first symbol is recorded before the mode lookup
  raises.
\<close>

theorem unknown_mode_becomes_running:
  "TAB1_MODES ''turbo'' = None
   \<and> fst (start Tab1 ''turbo'' 1 False initial_world) = Ok_true
   \<and> j_status (status_query Tab1
        (snd (enter_tab1 ''turbo'' False
               (snd (snd (start Tab1 ''turbo'' 1 False initial_world)))))) = job_running
   \<and> (let j = status_query Tab1
                 (run_task_tab1 (offline five_symbols) 1 ''turbo'' False
                    (snd (snd (start Tab1 ''turbo'' 1 False initial_world))))
      in (j_status j, j_message j, j_progress j, j_current_stock j))
       = (job_error, Msg_exception (KeyError ''turbo''), 1, ''600001 A'')"
  by code_simp

text \<open>
  Claim C8, as the code has it. Nothing checks the mode name when a job is started: the
  request is answered \<open>ok\<close> and, the lock being free, the job becomes running. With an
  unregistered mode and a universe that resolves to at least one symbol, the first pass
  of the loop records that symbol (progress 1) and the mode lookup of the per-symbol
  screening raises before any data is fetched; the job ends with status \<open>error\<close>, the
  text of the \<open>KeyError\<close> as its message, no result, all stats zero, the data-source
  label and the source-health flag untouched, and the lock released. With a universe
  that resolves to no symbol the job ends completed.
\<close>

theorem unknown_mode_job:
  assumes "TAB1_MODES mode = None" and "\<not> TASK_LOCKS w Tab1"
  shows "fst (start Tab1 mode ratio golden_only w) = Ok_true
     \<and> j_status (status_query Tab1
          (snd (enter_tab1 mode golden_only
                 (snd (snd (start Tab1 mode ratio golden_only w)))))) = job_running
     \<and> (\<forall>code name rows. resolve_universe p ratio = Inr ((code, name) # rows) \<longrightarrow>
          (let w' = run_task_tab1 p ratio mode golden_only
                      (snd (snd (start Tab1 mode ratio golden_only w)));
               j = status_query Tab1 w'
           in j_status j = job_error \<and> j_message j = Msg_exception (KeyError mode)
            \<and> j_progress j = 1 \<and> j_current_stock j = code @ '' '' @ name
            \<and> j_results j = [] \<and> j_success j = 0 \<and> j_failed j = 0 \<and> j_matched j = 0
            \<and> j_data_source j = Auto_select \<and> eastmoney_ok w' = eastmoney_ok w
            \<and> \<not> TASK_LOCKS w' Tab1))
     \<and> (resolve_universe p ratio = Inr [] \<longrightarrow>
          j_status (status_query Tab1
            (run_task_tab1 p ratio mode golden_only
               (snd (snd (start Tab1 mode ratio golden_only w))))) = job_completed)"
proof -
  let ?w0 = "snd (snd (start Tab1 mode ratio golden_only w))"
  have free: "\<not> TASK_LOCKS ?w0 Tab1" using assms(2) by (simp add: start_answer)
  have fresh: "heap ?w0 (STATE ?w0 Tab1) = fresh_job Tab1 mode golden_only"
    using start_answer(2)[of Tab1 mode ratio golden_only w] by (simp add: status_query_def)
  have health: "eastmoney_ok ?w0 = eastmoney_ok w" by (simp add: start_answer)
  have running: "j_status (status_query Tab1 (snd (enter_tab1 mode golden_only ?w0)))
                   = job_running"
    using free by (simp add: enter_tab1_def Let_def status_query_def)
  have raised: "let w' = run_task_tab1 p ratio mode golden_only ?w0;
               j = status_query Tab1 w'
           in j_status j = job_error \<and> j_message j = Msg_exception (KeyError mode)
            \<and> j_progress j = 1 \<and> j_current_stock j = code @ '' '' @ name
            \<and> j_results j = [] \<and> j_success j = 0 \<and> j_failed j = 0 \<and> j_matched j = 0
            \<and> j_data_source j = Auto_select \<and> eastmoney_ok w' = eastmoney_ok w
            \<and> \<not> TASK_LOCKS w' Tab1"
    if "resolve_universe p ratio = Inr ((code, name) # rows)" for code name rows
    unfolding unknown_mode_run[OF assms(1) free that] Let_def
    using fresh health by (simp add: status_query_def fresh_job_def)
  from start_answer(1) running raised empty_universe_run[OF free] show ?thesis by blast
qed

theorem unknown_mode_job_witness:
  "TAB1_MODES ''turbo'' = None \<and> \<not> TASK_LOCKS initial_world Tab1
   \<and> resolve_universe (offline five_symbols) 1 = Inr ((''600001'', ''A'') # tl five_symbols)
   \<and> fst (start Tab1 ''turbo'' 1 True initial_world) = Ok_true
   \<and> j_status (status_query Tab1
        (run_task_tab1 (offline five_symbols) 1 ''turbo'' True
           (snd (snd (start Tab1 ''turbo'' 1 True initial_world))))) = job_error
   \<and> j_message (status_query Tab1
        (run_task_tab1 (offline five_symbols) 1 ''turbo'' True
           (snd (snd (start Tab1 ''turbo'' 1 True initial_world)))))
       = Msg_exception (KeyError ''turbo'')
   \<and> j_progress (status_query Tab1
        (run_task_tab1 (offline five_symbols) 1 ''turbo'' True
           (snd (snd (start Tab1 ''turbo'' 1 True initial_world))))) = 1"
proof -
  have m: "TAB1_MODES ''turbo'' = None" by (simp add: TAB1_MODES_def)
  have f: "\<not> TASK_LOCKS initial_world Tab1" by (simp add: initial_world_def)
  have u: "resolve_universe (offline five_symbols) 1
             = Inr ((''600001'', ''A'') # tl five_symbols)"
    by code_simp
  note t = unknown_mode_job[OF m f, of 1 True "offline five_symbols"]
  from t have a: "fst (start Tab1 ''turbo'' 1 True initial_world) = Ok_true" by blast
  from t have "\<forall>code name rows.
      resolve_universe (offline five_symbols) 1 = Inr ((code, name) # rows) \<longrightarrow>
          (let w' = run_task_tab1 (offline five_symbols) 1 ''turbo'' True
                      (snd (snd (start Tab1 ''turbo'' 1 True initial_world)));
               j = status_query Tab1 w'
           in j_status j = job_error \<and> j_message j = Msg_exception (KeyError ''turbo'')
            \<and> j_progress j = 1 \<and> j_current_stock j = code @ '' '' @ name
            \<and> j_results j = [] \<and> j_success j = 0 \<and> j_failed j = 0 \<and> j_matched j = 0
            \<and> j_data_source j = Auto_select \<and> eastmoney_ok w' = eastmoney_ok initial_world
            \<and> \<not> TASK_LOCKS w' Tab1)"
    by blast
  from this[rule_format, OF u] m f u a show ?thesis by (simp add: Let_def)
qed

end
